theory Spec2Isabelle
  imports Main "HOL-Library.Word"
begin

text \<open>
  A model of \<^verbatim>\<open>script.js\<close>, the skin viewer page: the resolver \<open>fetchSkinFromMojang\<close>,
  the start-up \<open>initializeViewer\<close>, the upload path \<open>readSkinFile\<close> and the animation
  toggle, as state transformers over the page state, with the answers of the browser,
  the network and the renderer as a parameter. Line numbers refer to \<^verbatim>\<open>script.js\<close>.
\<close>

section \<open>JavaScript strings and values\<close>

text \<open>
  A JavaScript string is a sequence of 16-bit code units. The script's string operations
  (\<^verbatim>\<open>trim\<close>, the two regular expressions, \<^verbatim>\<open>replace\<close>, \<^verbatim>\<open>endsWith\<close>,
  \<^verbatim>\<open>encodeURIComponent\<close>) all work on code units, so strings are modelled as lists of
  16-bit words and the literals of the script are embedded by \<open>lit\<close>.
\<close>

type_synonym jschar = "16 word"
type_synonym jsstring = "jschar list"

definition lit :: "string \<Rightarrow> jsstring" where
  "lit s = map (\<lambda>c. of_nat (of_char c)) s"

text \<open>
  \<^verbatim>\<open>String.prototype.trim\<close> removes leading and trailing WhiteSpace and LineTerminator
  code points (ECMAScript 12.2, 12.3): TAB, LF, VT, FF, CR, SP, NBSP, U+1680,
  U+2000..U+200A, U+2028, U+2029, U+202F, U+205F, U+3000 and U+FEFF.
\<close>

definition isWhiteSpace :: "jschar \<Rightarrow> bool" where
  "isWhiteSpace c =
     ((0x09 \<le> c \<and> c \<le> 0x0D) \<or> c = 0x20 \<or> c = 0xA0 \<or> c = 0x1680 \<or>
      (0x2000 \<le> c \<and> c \<le> 0x200A) \<or> c = 0x2028 \<or> c = 0x2029 \<or> c = 0x202F \<or>
      c = 0x205F \<or> c = 0x3000 \<or> c = 0xFEFF)"

definition trim :: "jsstring \<Rightarrow> jsstring" where
  "trim s = rev (dropWhile isWhiteSpace (rev (dropWhile isWhiteSpace s)))"

text \<open>
  The two patterns of line 36, \<^verbatim>\<open>/^[0-9a-f]{32}$/i\<close> and
  \<^verbatim>\<open>/^[0-9a-f]{8}-[0-9a-f]{4}-[0-9a-f]{4}-[0-9a-f]{4}-[0-9a-f]{12}$/i\<close>. Both are
  anchored at both ends (no \<^verbatim>\<open>m\<close> flag, so \<^verbatim>\<open>$\<close> is the end of the input) and are
  sequences of single-character classes, so a pattern is a list of classes matched
  position by position. Under the \<^verbatim>\<open>i\<close> flag the class \<^verbatim>\<open>[0-9a-f]\<close> also accepts
  \<^verbatim>\<open>A-F\<close> and no other code unit.
\<close>

datatype cclass = HexDigit | Dash

definition isHexDigit :: "jschar \<Rightarrow> bool" where
  "isHexDigit c = ((0x30 \<le> c \<and> c \<le> 0x39) \<or> (0x61 \<le> c \<and> c \<le> 0x66) \<or> (0x41 \<le> c \<and> c \<le> 0x46))"

fun inClass :: "cclass \<Rightarrow> jschar \<Rightarrow> bool" where
  "inClass HexDigit c = isHexDigit c"
| "inClass Dash c = (c = 0x2D)"

definition matches :: "cclass list \<Rightarrow> jsstring \<Rightarrow> bool" where
  "matches p s = list_all2 inClass p s"

definition hex32 :: "cclass list" where
  "hex32 = replicate 32 HexDigit"

definition dashedUUID :: "cclass list" where
  "dashedUUID = replicate 8 HexDigit @ [Dash] @ replicate 4 HexDigit @ [Dash] @
     replicate 4 HexDigit @ [Dash] @ replicate 4 HexDigit @ [Dash] @ replicate 12 HexDigit"

text \<open>\<^verbatim>\<open>uuid.replace(/-/g, '')\<close> on a string deletes every dash.\<close>

definition removeDashes :: "jsstring \<Rightarrow> jsstring" where
  "removeDashes s = filter (\<lambda>c. c \<noteq> 0x2D) s"

text \<open>\<^verbatim>\<open>String.prototype.endsWith\<close>, compared code unit by code unit.\<close>

definition endsWith :: "jsstring \<Rightarrow> jsstring \<Rightarrow> bool" where
  "endsWith s suffix =
     (length suffix \<le> length s \<and> drop (length s - length suffix) s = suffix)"

text \<open>
  Every exception of the script comes from the platform. The handlers of the script
  never inspect the exception, so only its kind is kept.
\<close>

datatype exn = TypeError | URIError | SyntaxError | InvalidCharacterError | NetworkError | LoadError

text \<open>
  \<^verbatim>\<open>encodeURIComponent\<close> (ECMAScript 19.2.6.5, Encode): a code unit of the unreserved set
  (letters, digits and \<^verbatim>\<open>-_.!~*'()\<close>) is copied; any other code point is written as the
  \<^verbatim>\<open>%XX\<close> escapes of its UTF-8 octets; an unpaired surrogate throws URIError.
\<close>

definition uriUnescaped :: "jschar \<Rightarrow> bool" where
  "uriUnescaped c =
     ((0x41 \<le> c \<and> c \<le> 0x5A) \<or> (0x61 \<le> c \<and> c \<le> 0x7A) \<or> (0x30 \<le> c \<and> c \<le> 0x39) \<or>
      c \<in> {0x2D, 0x5F, 0x2E, 0x21, 0x7E, 0x2A, 0x27, 0x28, 0x29})"

definition isHighSurrogate :: "jschar \<Rightarrow> bool" where
  "isHighSurrogate c = (0xD800 \<le> c \<and> c \<le> 0xDBFF)"

definition isLowSurrogate :: "jschar \<Rightarrow> bool" where
  "isLowSurrogate c = (0xDC00 \<le> c \<and> c \<le> 0xDFFF)"

definition utf8 :: "nat \<Rightarrow> nat list" where
  "utf8 cp =
     (if cp < 0x80 then [cp]
      else if cp < 0x800 then [0xC0 + cp div 64, 0x80 + cp mod 64]
      else if cp < 0x10000 then [0xE0 + cp div 4096, 0x80 + (cp div 64) mod 64, 0x80 + cp mod 64]
      else [0xF0 + cp div 262144, 0x80 + (cp div 4096) mod 64, 0x80 + (cp div 64) mod 64,
            0x80 + cp mod 64])"

definition percentEscape :: "nat \<Rightarrow> jsstring" where
  "percentEscape octet =
     [0x25, lit ''0123456789ABCDEF'' ! (octet div 16), lit ''0123456789ABCDEF'' ! (octet mod 16)]"

definition escapeCodePoint :: "nat \<Rightarrow> jsstring" where
  "escapeCodePoint cp = concat (map percentEscape (utf8 cp))"

fun encodeURIComponent :: "jsstring \<Rightarrow> exn + jsstring" where
  "encodeURIComponent [] = Inr []"
| "encodeURIComponent [c] =
     (if uriUnescaped c then Inr [c]
      else if isHighSurrogate c \<or> isLowSurrogate c then Inl URIError
      else Inr (escapeCodePoint (unat c)))"
| "encodeURIComponent (c # d # ds) =
     (if uriUnescaped c then map_sum id ((#) c) (encodeURIComponent (d # ds))
      else if isHighSurrogate c then
        (if isLowSurrogate d then
           map_sum id
             ((@) (escapeCodePoint (0x10000 + (unat c - 0xD800) * 0x400 + (unat d - 0xDC00))))
             (encodeURIComponent ds)
         else Inl URIError)
      else if isLowSurrogate c then Inl URIError
      else map_sum id ((@) (escapeCodePoint (unat c))) (encodeURIComponent (d # ds)))"

text \<open>
  Values that reach the script from \<^verbatim>\<open>response.json()\<close> and \<^verbatim>\<open>JSON.parse\<close>, together with
  \<^verbatim>\<open>undefined\<close>, which property access produces. A Number is its IEEE 754 binary64 bit
  pattern; an object is its list of own properties.
\<close>

datatype jsval =
    JUndefined
  | JNull
  | JBool bool
  | JNumber "64 word"
  | JString jsstring
  | JArray "jsval list"
  | JObject "(jsstring \<times> jsval) list"

text \<open>
  ToBoolean: \<^verbatim>\<open>undefined\<close>, \<^verbatim>\<open>null\<close>, \<^verbatim>\<open>false\<close>, \<^verbatim>\<open>+0\<close>, \<^verbatim>\<open>-0\<close>, \<^verbatim>\<open>NaN\<close> and the
  empty string are falsy; every object and array is truthy.
\<close>

fun truthy :: "jsval \<Rightarrow> bool" where
  "truthy JUndefined = False"
| "truthy JNull = False"
| "truthy (JBool b) = b"
| "truthy (JNumber w) =
     (let m = and w 0x7FFFFFFFFFFFFFFF in m \<noteq> 0 \<and> m \<le> 0x7FF0000000000000)"
| "truthy (JString s) = (s \<noteq> [])"
| "truthy (JArray xs) = True"
| "truthy (JObject kvs) = True"

text \<open>
  Property read \<^verbatim>\<open>v.k\<close>. Reading a property of \<^verbatim>\<open>undefined\<close> or \<^verbatim>\<open>null\<close> throws
  TypeError. The script reads only the keys \<^verbatim>\<open>id\<close>, \<^verbatim>\<open>name\<close>, \<^verbatim>\<open>properties\<close>,
  \<^verbatim>\<open>value\<close>, \<^verbatim>\<open>textures\<close>, \<^verbatim>\<open>SKIN\<close> and \<^verbatim>\<open>url\<close>; none of them is defined on a
  built-in prototype, so on a primitive or an array the read gives \<^verbatim>\<open>undefined\<close> and on
  an object it gives the own property or \<^verbatim>\<open>undefined\<close>.
\<close>

fun getProp :: "jsval \<Rightarrow> jsstring \<Rightarrow> exn + jsval" where
  "getProp JUndefined k = Inl TypeError"
| "getProp JNull k = Inl TypeError"
| "getProp (JObject kvs) k = Inr (case map_of kvs k of None \<Rightarrow> JUndefined | Some v \<Rightarrow> v)"
| "getProp v k = Inr JUndefined"

text \<open>Optional chaining \<^verbatim>\<open>v?.k\<close>: \<^verbatim>\<open>undefined\<close> when \<open>v\<close> is \<^verbatim>\<open>undefined\<close> or \<^verbatim>\<open>null\<close>.\<close>

definition getPropOpt :: "jsval \<Rightarrow> jsstring \<Rightarrow> exn + jsval" where
  "getPropOpt v k = (if v = JUndefined \<or> v = JNull then Inr JUndefined else getProp v k)"

text \<open>
  \<^verbatim>\<open>xs.find(prop => prop.name === "textures")\<close>: the first element whose \<^verbatim>\<open>name\<close> is the
  string \<^verbatim>\<open>textures\<close>, \<^verbatim>\<open>undefined\<close> when there is none; the callback throws on a
  \<^verbatim>\<open>null\<close> element. Only an array has a callable \<^verbatim>\<open>find\<close>.
\<close>

fun findTextures :: "jsval list \<Rightarrow> exn + jsval" where
  "findTextures [] = Inr JUndefined"
| "findTextures (prop # props) =
     (case getProp prop (lit ''name'') of
        Inl x \<Rightarrow> Inl x
      | Inr n \<Rightarrow> if n = JString (lit ''textures'') then Inr prop else findTextures props)"

definition callFind :: "jsval \<Rightarrow> exn + jsval" where
  "callFind v = (case v of JArray xs \<Rightarrow> findTextures xs | _ \<Rightarrow> Inl TypeError)"

text \<open>
  Line 78, \<^verbatim>\<open>texturesJson.textures.SKIN?.url\<close>: the two plain reads throw on
  \<^verbatim>\<open>undefined\<close> and \<^verbatim>\<open>null\<close>, the optional one does not.
\<close>

definition skinUrlOf :: "jsval \<Rightarrow> exn + jsval" where
  "skinUrlOf texturesJson =
     (case getProp texturesJson (lit ''textures'') of
        Inl x \<Rightarrow> Inl x
      | Inr textures \<Rightarrow>
          (case getProp textures (lit ''SKIN'') of
             Inl x \<Rightarrow> Inl x
           | Inr SKIN \<Rightarrow> getPropOpt SKIN (lit ''url'')))"

text \<open>\<^verbatim>\<open>uuid.replace(/-/g, '')\<close>: only a string has a callable \<^verbatim>\<open>replace\<close>.\<close>

definition callReplace :: "jsval \<Rightarrow> exn + jsstring" where
  "callReplace v = (case v of JString s \<Rightarrow> Inr (removeDashes s) | _ \<Rightarrow> Inl TypeError)"

section \<open>The page and its environment\<close>

datatype animation = WalkingAnimation

text \<open>
  The external viewer object. The script also assigns numeric tuning fields (orbit
  controls, \<^verbatim>\<open>fov\<close>, \<^verbatim>\<open>zoom\<close>, the animation speed); it never reads them back and they
  are left out.
\<close>

record SkinViewer =
  animation :: "animation option"

record File =
  file_name :: jsstring
  file_type :: jsstring
  file_size :: nat

text \<open>
  Outside the model: the DOM elements that the script looks up exist, constructing the
  viewer and the animation succeeds, and local storage is an unbounded map whose reads
  and writes do not throw. \<^verbatim>\<open>console.error\<close> only writes to the console and is left
  out. Every other platform call that can fail (\<^verbatim>\<open>encodeURIComponent\<close>, \<^verbatim>\<open>fetch\<close>,
  \<^verbatim>\<open>response.json\<close>, property reads, \<^verbatim>\<open>atob\<close>, \<^verbatim>\<open>JSON.parse\<close>, string conversion,
  \<^verbatim>\<open>viewer.loadSkin\<close>, the file reader) has both outcomes in the model.
\<close>

text \<open>
  The calls that leave the script, in the order they are made: the \<^verbatim>\<open>fetch\<close> of line 39
  (name lookup), the \<^verbatim>\<open>fetch\<close> of line 60 (profile by UUID), each with the URL it was
  given, \<^verbatim>\<open>viewer.loadSkin\<close> with its argument, and \<^verbatim>\<open>reader.readAsDataURL\<close>.
\<close>

datatype call =
    is_NameLookup: NameLookup jsstring
  | is_ProfileByUUID: ProfileByUUID jsstring
  | is_LoadSkin: LoadSkin jsval
  | is_ReadAsDataURL: ReadAsDataURL File

record state =
  viewer :: "SkinViewer option"
  localStorage :: "jsstring \<rightharpoonup> jsstring"
  statusText :: "jsstring \<times> bool"
  fetchSkinBtn_disabled :: bool
  animationToggle_checked :: bool
  calls :: "call list"

text \<open>
  A \<^verbatim>\<open>fetch\<close> response: its status code and what \<^verbatim>\<open>response.json()\<close> settles to.
  \<^verbatim>\<open>response.ok\<close> is true exactly for the statuses 200 to 299.
\<close>

record response =
  status :: nat
  json :: "exn + jsval"

definition ok :: "response \<Rightarrow> bool" where
  "ok r = (200 \<le> status r \<and> status r \<le> 299)"

text \<open>
  What the platform answers. \<open>fetch\<close> maps a URL to the response or to the rejection of
  the promise; \<open>atob\<close> and \<open>JSON_parse\<close> are the two built-in decoders; \<open>loadSkin\<close> is the
  external renderer; \<open>readAsDataURL\<close> is the outcome of the file reader (the data URL of
  its \<^verbatim>\<open>load\<close> event, or its \<^verbatim>\<open>error\<close> event); \<open>ToString_other\<close> is the string
  conversion of numbers, arrays and objects.
\<close>

record env =
  fetch :: "jsstring \<Rightarrow> exn + response"
  atob :: "jsval \<Rightarrow> exn + jsstring"
  JSON_parse :: "jsstring \<Rightarrow> exn + jsval"
  loadSkin :: "jsval \<Rightarrow> exn + unit"
  readAsDataURL :: "File \<Rightarrow> exn + jsstring"
  ToString_other :: "jsval \<Rightarrow> exn + jsstring"

definition ToString :: "env \<Rightarrow> jsval \<Rightarrow> exn + jsstring" where
  "ToString e v =
     (case v of
        JUndefined \<Rightarrow> Inr (lit ''undefined'')
      | JNull \<Rightarrow> Inr (lit ''null'')
      | JBool b \<Rightarrow> Inr (if b then lit ''true'' else lit ''false'')
      | JString s \<Rightarrow> Inr s
      | _ \<Rightarrow> ToString_other e v)"

section \<open>Control flow\<close>

text \<open>
  A statement either completes normally with a value, executes \<^verbatim>\<open>return\<close>, or throws.
  An action takes the page state and gives the completion and the new state. Each
  handler runs to its end without another handler in between.
\<close>

datatype 'a completion = Normal 'a | Return | Throw exn

type_synonym 'a action = "state \<Rightarrow> 'a completion \<times> state"

definition unit_js :: "'a \<Rightarrow> 'a action" where
  "unit_js x s = (Normal x, s)"

definition return_js :: "'a action" where
  "return_js s = (Return, s)"

definition bind_js :: "'a action \<Rightarrow> ('a \<Rightarrow> 'b action) \<Rightarrow> 'b action" where
  "bind_js m f s =
     (case m s of
        (Normal x, s') \<Rightarrow> f x s'
      | (Return, s') \<Rightarrow> (Return, s')
      | (Throw x, s') \<Rightarrow> (Throw x, s'))"

definition lift :: "exn + 'a \<Rightarrow> 'a action" where
  "lift r s = (case r of Inl x \<Rightarrow> (Throw x, s) | Inr v \<Rightarrow> (Normal v, s))"

definition modify :: "(state \<Rightarrow> state) \<Rightarrow> unit action" where
  "modify f s = (Normal (), f s)"

text \<open>
  \<^verbatim>\<open>try { body } catch (error) { handler } finally { fin }\<close>: the handler runs when the
  body throws; \<open>fin\<close> runs in every case and its own abrupt completion would win.
\<close>

definition try_catch_finally ::
  "unit action \<Rightarrow> (exn \<Rightarrow> unit action) \<Rightarrow> unit action \<Rightarrow> unit action" where
  "try_catch_finally body handler fin s =
     (let (c, s1) = (case body s of (Throw x, s') \<Rightarrow> handler x s' | r \<Rightarrow> r)
      in case fin s1 of (Normal u, s2) \<Rightarrow> (c, s2) | r \<Rightarrow> r)"

definition try_catch :: "unit action \<Rightarrow> (exn \<Rightarrow> unit action) \<Rightarrow> unit action" where
  "try_catch body handler = try_catch_finally body handler (unit_js ())"

section \<open>The script\<close>

definition setStatus :: "jsstring \<Rightarrow> bool \<Rightarrow> unit action" where
  "setStatus message isError = modify (\<lambda>s. s\<lparr>statusText := (message, isError)\<rparr>)"

definition setItem :: "jsstring \<Rightarrow> jsstring \<Rightarrow> unit action" where
  "setItem k v = modify (\<lambda>s. s\<lparr>localStorage := (localStorage s)(k \<mapsto> v)\<rparr>)"

definition removeItem :: "jsstring \<Rightarrow> unit action" where
  "removeItem k = modify (\<lambda>s. s\<lparr>localStorage := (localStorage s)(k := None)\<rparr>)"

definition record_call :: "call \<Rightarrow> unit action" where
  "record_call c = modify (\<lambda>s. s\<lparr>calls := calls s @ [c]\<rparr>)"

definition await_fetch :: "env \<Rightarrow> (jsstring \<Rightarrow> call) \<Rightarrow> jsstring \<Rightarrow> response action" where
  "await_fetch e site url = bind_js (record_call (site url)) (\<lambda>_. lift (fetch e url))"

definition await_loadSkin :: "env \<Rightarrow> jsval \<Rightarrow> unit action" where
  "await_loadSkin e src = bind_js (record_call (LoadSkin src)) (\<lambda>_. lift (loadSkin e src))"

definition proxied :: "jsstring \<Rightarrow> jsstring" where
  "proxied enc = lit ''https://choculaterie.com/api/MojangProxy?endpoint='' @ enc"

definition mojangUrl :: "jsstring \<Rightarrow> jsstring" where
  "mojangUrl input = lit ''https://api.mojang.com/users/profiles/minecraft/'' @ input"

definition sessionUrl :: "jsstring \<Rightarrow> jsstring" where
  "sessionUrl uuid = lit ''https://sessionserver.mojang.com/session/minecraft/profile/'' @ uuid"

text \<open>The storage keys and the status messages of the script.\<close>

definition currentSkin :: jsstring where
  "currentSkin = lit ''currentSkin''"

definition currentPlayerName :: jsstring where
  "currentPlayerName = lit ''currentPlayerName''"

definition animationEnabled :: jsstring where
  "animationEnabled = lit ''animationEnabled''"

definition msg_starting :: jsstring where
  "msg_starting = lit ''Viewer is still starting up. Please try again in a second.''"

definition msg_enter :: jsstring where
  "msg_enter = lit ''Please enter a username or UUID.''"

definition msg_fetching :: jsstring where
  "msg_fetching = lit ''Fetching skin from Mojang...''"

definition msg_not_found :: "jsstring \<Rightarrow> jsstring" where
  "msg_not_found input = lit ''Player '' @ [0x22] @ input @ [0x22] @ lit '' not found.''"

definition msg_profile_failed :: jsstring where
  "msg_profile_failed = lit ''Failed to fetch player profile. Try again later.''"

definition msg_skin_data_failed :: jsstring where
  "msg_skin_data_failed = lit ''Failed to fetch skin data.''"

definition msg_no_skin_data :: jsstring where
  "msg_no_skin_data = lit ''No skin data found for this player.''"

definition msg_no_skin :: jsstring where
  "msg_no_skin = lit ''No skin found for this player.''"

definition msg_loaded :: "jsstring \<Rightarrow> jsstring" where
  "msg_loaded playerName =
     lit ''Loaded skin for <strong>'' @ playerName @
     lit ''</strong>! Scroll to zoom and drag to orbit.''"

definition msg_fetch_error :: jsstring where
  "msg_fetch_error = lit ''An error occurred while fetching the skin. Please try again.''"

definition msg_ready :: jsstring where
  "msg_ready = lit ''Ready! Upload a skin file or fetch one by username.''"

definition msg_loaded_saved :: "jsstring \<Rightarrow> jsstring" where
  "msg_loaded_saved savedPlayerName =
     lit ''Loaded saved skin for <strong>'' @ savedPlayerName @
     lit ''</strong>! Scroll to zoom and drag to orbit.''"

definition msg_loaded_saved_anon :: jsstring where
  "msg_loaded_saved_anon = lit ''Loaded saved skin! Scroll to zoom and drag to orbit.''"

definition msg_select_png :: jsstring where
  "msg_select_png = lit ''Please select a PNG file (e.g. skin.png).''"

definition msg_too_large :: jsstring where
  "msg_too_large = lit ''That file is quite large. Try a file under 5 MB.''"

definition msg_loading :: jsstring where
  "msg_loading = lit ''Loading skin'' @ [0x2026]"

definition msg_skin_loaded :: jsstring where
  "msg_skin_loaded = lit ''Skin loaded! Scroll to zoom and drag the preview to orbit.''"

definition msg_read_failed :: jsstring where
  "msg_read_failed = lit ''Something went wrong reading that skin file.''"

definition msg_could_not_read :: jsstring where
  "msg_could_not_read = lit ''Could not read that file. Please try again.''"

subsection \<open>fetchSkinFromMojang\<close>

text \<open>
  Lines 36 to 53: when the input matches neither pattern, the name lookup. It gives the
  values of \<^verbatim>\<open>uuid\<close> and \<^verbatim>\<open>playerName\<close> after line 53.
\<close>

definition name_lookup :: "env \<Rightarrow> jsstring \<Rightarrow> (jsval \<times> jsval) action" where
  "name_lookup e input =
     (if \<not> matches hex32 input \<and> \<not> matches dashedUUID input then
        bind_js (lift (encodeURIComponent (mojangUrl input))) (\<lambda>enc.
        bind_js (await_fetch e NameLookup (proxied enc)) (\<lambda>profileResponse.
        if \<not> ok profileResponse then
          bind_js
            (if status profileResponse = 404 then setStatus (msg_not_found input) True
             else setStatus msg_profile_failed True)
            (\<lambda>_. return_js)
        else
          bind_js (lift (json profileResponse)) (\<lambda>profileData.
          bind_js (lift (getProp profileData (lit ''id''))) (\<lambda>uuid.
          bind_js (lift (getProp profileData (lit ''name''))) (\<lambda>playerName.
          unit_js (uuid, playerName))))))
      else unit_js (JString input, JString input))"

text \<open>
  Lines 55 to 92: the profile request, the decoding of the textures property, the load
  and the two storage writes. The \<^verbatim>\<open>playerName\<close> of the first step is overwritten at
  line 68 before it is read.
\<close>

definition load_profile :: "env \<Rightarrow> jsval \<Rightarrow> unit action" where
  "load_profile e uuid =
     bind_js (lift (callReplace uuid)) (\<lambda>uuid.
     bind_js (lift (encodeURIComponent (sessionUrl uuid))) (\<lambda>enc.
     bind_js (await_fetch e ProfileByUUID (proxied enc)) (\<lambda>sessionResponse.
     if \<not> ok sessionResponse then
       bind_js (setStatus msg_skin_data_failed True) (\<lambda>_. return_js)
     else
     bind_js (lift (json sessionResponse)) (\<lambda>sessionData.
     bind_js (lift (getProp sessionData (lit ''name''))) (\<lambda>playerName.
     bind_js (lift (getProp sessionData (lit ''properties''))) (\<lambda>properties.
     bind_js (lift (callFind properties)) (\<lambda>texturesProperty.
     if \<not> truthy texturesProperty then
       bind_js (setStatus msg_no_skin_data True) (\<lambda>_. return_js)
     else
     bind_js (lift (getProp texturesProperty (lit ''value''))) (\<lambda>encoded.
     bind_js (lift (atob e encoded)) (\<lambda>decoded.
     bind_js (lift (JSON_parse e decoded)) (\<lambda>texturesJson.
     bind_js (lift (skinUrlOf texturesJson)) (\<lambda>skinUrl.
     if \<not> truthy skinUrl then
       bind_js (setStatus msg_no_skin True) (\<lambda>_. return_js)
     else
     bind_js (await_loadSkin e skinUrl) (\<lambda>_.
     bind_js (lift (ToString e skinUrl)) (\<lambda>skinText.
     bind_js (setItem currentSkin skinText) (\<lambda>_.
     bind_js (lift (ToString e playerName)) (\<lambda>nameText.
     bind_js (setItem currentPlayerName nameText) (\<lambda>_.
     bind_js (lift (ToString e playerName)) (\<lambda>nameText.
     setStatus (msg_loaded nameText) False)))))))))))))))))"

definition fetchSkin_try :: "env \<Rightarrow> jsstring \<Rightarrow> unit action" where
  "fetchSkin_try e input =
     bind_js (name_lookup e input) (\<lambda>(uuid, playerName). load_profile e uuid)"

definition fetchSkinFromMojang :: "env \<Rightarrow> jsstring \<Rightarrow> unit action" where
  "fetchSkinFromMojang e usernameOrUUID s =
     (if viewer s = None then bind_js (setStatus msg_starting True) (\<lambda>_. return_js) s
      else
        let input = trim usernameOrUUID in
        if input = [] then bind_js (setStatus msg_enter True) (\<lambda>_. return_js) s
        else
          bind_js (modify (\<lambda>s. s\<lparr>fetchSkinBtn_disabled := True\<rparr>)) (\<lambda>_.
          bind_js (setStatus msg_fetching False) (\<lambda>_.
          try_catch_finally
            (fetchSkin_try e input)
            (\<lambda>error. setStatus msg_fetch_error True)
            (modify (\<lambda>s. s\<lparr>fetchSkinBtn_disabled := False\<rparr>)))) s)"

subsection \<open>initializeViewer\<close>

definition getItem :: "jsstring \<Rightarrow> jsstring option action" where
  "getItem k s = (Normal (localStorage s k), s)"

definition set_animation :: "animation option \<Rightarrow> unit action" where
  "set_animation a = modify (\<lambda>s. s\<lparr>viewer := map_option (\<lambda>v. v\<lparr>animation := a\<rparr>) (viewer s)\<rparr>)"

text \<open>
  A stored string is truthy when it is not empty; \<^verbatim>\<open>getItem\<close> gives \<^verbatim>\<open>null\<close> for a
  missing key.
\<close>

definition truthy_item :: "jsstring option \<Rightarrow> bool" where
  "truthy_item v = (case v of None \<Rightarrow> False | Some t \<Rightarrow> t \<noteq> [])"

definition initializeViewer :: "env \<Rightarrow> unit action" where
  "initializeViewer e =
     bind_js (modify (\<lambda>s. s\<lparr>viewer := Some \<lparr>animation = None\<rparr>\<rparr>)) (\<lambda>_.
     bind_js (getItem animationEnabled) (\<lambda>stored.
     let enabled = (stored \<noteq> Some (lit ''false'')) in
     bind_js (if enabled then set_animation (Some WalkingAnimation) else unit_js ()) (\<lambda>_.
     bind_js (modify (\<lambda>s. s\<lparr>animationToggle_checked := enabled\<rparr>)) (\<lambda>_.
     bind_js (getItem currentSkin) (\<lambda>savedSkin.
     if truthy_item savedSkin then
       try_catch
         (bind_js (await_loadSkin e (JString (the savedSkin))) (\<lambda>_.
          bind_js (getItem currentPlayerName) (\<lambda>savedPlayerName.
          if truthy_item savedPlayerName
          then setStatus (msg_loaded_saved (the savedPlayerName)) False
          else setStatus msg_loaded_saved_anon False)))
         (\<lambda>error.
          bind_js (setStatus msg_ready False) (\<lambda>_.
          bind_js (removeItem currentSkin) (\<lambda>_.
          removeItem currentPlayerName)))
     else setStatus msg_ready False)))))"

subsection \<open>readSkinFile\<close>

text \<open>
  The listener of the reader's \<^verbatim>\<open>load\<close> event (lines 176 to 193), with the data URL
  of \<^verbatim>\<open>event.target.result\<close>.
\<close>

definition on_reader_load :: "env \<Rightarrow> jsstring \<Rightarrow> unit action" where
  "on_reader_load e skinData =
     try_catch
       (bind_js (await_loadSkin e (JString skinData)) (\<lambda>_.
        bind_js (setItem currentSkin skinData) (\<lambda>_.
        bind_js (removeItem currentPlayerName) (\<lambda>_.
        setStatus msg_skin_loaded False))))
       (\<lambda>error. setStatus msg_read_failed True)"

text \<open>
  \<open>readSkinFile\<close> together with the reader event that follows \<^verbatim>\<open>readAsDataURL\<close>. The
  argument is \<open>None\<close> for a missing file (line 160).
\<close>

definition readSkinFile :: "env \<Rightarrow> File option \<Rightarrow> unit action" where
  "readSkinFile e file s =
     (if viewer s = None then bind_js (setStatus msg_starting True) (\<lambda>_. return_js) s
      else
        case file of
          None \<Rightarrow> return_js s
        | Some f \<Rightarrow>
            let isPNG = (file_type f = lit ''image/png'' \<or> endsWith (file_name f) (lit ''.png'')) in
            if \<not> isPNG then bind_js (setStatus msg_select_png True) (\<lambda>_. return_js) s
            else if file_size f > 5 * 1024 * 1024 then
              bind_js (setStatus msg_too_large True) (\<lambda>_. return_js) s
            else
              bind_js (setStatus msg_loading False) (\<lambda>_.
              bind_js (record_call (ReadAsDataURL f)) (\<lambda>_.
              case readAsDataURL e f of
                Inr skinData \<Rightarrow> on_reader_load e skinData
              | Inl x \<Rightarrow> setStatus msg_could_not_read True)) s)"

subsection \<open>The animation toggle\<close>



text \<open>The calls made between two states of one run.\<close>

definition new_calls :: "state \<Rightarrow> state \<Rightarrow> call list" where
  "new_calls s s' = drop (length (calls s)) (calls s')"

section \<open>Example pages and upstream answers\<close>

text \<open>
  A page whose viewer has started with empty storage, and the same page before
  \<open>initializeViewer\<close> has run.
\<close>

definition page_ready :: state where
  "page_ready =
     \<lparr>viewer = Some \<lparr>animation = Some WalkingAnimation\<rparr>, localStorage = Map.empty,
      statusText = (msg_ready, False), fetchSkinBtn_disabled = False,
      animationToggle_checked = True, calls = []\<rparr>"

definition page_loading :: state where
  "page_loading = page_ready\<lparr>viewer := None, statusText := ([], False)\<rparr>"

text \<open>
  The scenario of the specification: the name \<^verbatim>\<open>Notch\<close> resolves to a UUID, and the
  profile of that UUID carries a \<^verbatim>\<open>textures\<close> property. The property value, its
  base64 decoding and the parsed JSON are parameters, so that the same upstream can
  answer with a complete descriptor, with one that has no \<^verbatim>\<open>SKIN\<close>, or with an empty
  object.
\<close>

definition notch_uuid :: jsstring where
  "notch_uuid = lit ''069a79f444e94726a5befca90e38aaf5''"

definition notch_lookup_url :: jsstring where
  "notch_lookup_url =
     proxied (lit ''https%3A%2F%2Fapi.mojang.com%2Fusers%2Fprofiles%2Fminecraft%2FNotch'')"

definition notch_session_url :: jsstring where
  "notch_session_url =
     proxied (lit ''https%3A%2F%2Fsessionserver.mojang.com%2Fsession%2Fminecraft%2Fprofile%2F069a79f444e94726a5befca90e38aaf5'')"

definition herobrine_lookup_url :: jsstring where
  "herobrine_lookup_url =
     proxied (lit ''https%3A%2F%2Fapi.mojang.com%2Fusers%2Fprofiles%2Fminecraft%2FHerobrine'')"

definition notch_profile :: jsval where
  "notch_profile = JObject [(lit ''id'', JString notch_uuid), (lit ''name'', JString (lit ''Notch''))]"

definition textures_property :: "jsstring \<Rightarrow> jsval" where
  "textures_property encoded =
     JObject [(lit ''name'', JString (lit ''textures'')), (lit ''value'', JString encoded)]"

definition notch_session :: "jsstring \<Rightarrow> jsval" where
  "notch_session encoded =
     JObject [(lit ''id'', JString notch_uuid), (lit ''name'', JString (lit ''Notch'')),
              (lit ''properties'', JArray [textures_property encoded])]"

definition session_response :: "jsstring \<Rightarrow> response" where
  "session_response encoded = \<lparr>status = 200, json = Inr (notch_session encoded)\<rparr>"

definition not_found_response :: response where
  "not_found_response = \<lparr>status = 404, json = Inl SyntaxError\<rparr>"

definition png_data_url :: jsstring where
  "png_data_url = lit ''data:image/png;base64,iVBORw0KGgo=''"

definition upstream :: "jsstring \<Rightarrow> jsstring \<Rightarrow> jsval \<Rightarrow> env" where
  "upstream encoded decoded parsed =
     \<lparr>fetch = (\<lambda>url.
        if url = notch_lookup_url then Inr \<lparr>status = 200, json = Inr notch_profile\<rparr>
        else if url = notch_session_url then Inr (session_response encoded)
        else Inr not_found_response),
      atob = (\<lambda>v. if v = JString encoded then Inr decoded else Inl InvalidCharacterError),
      JSON_parse = (\<lambda>t. if t = decoded then Inr parsed else Inl SyntaxError),
      loadSkin = (\<lambda>src. Inr ()),
      readAsDataURL = (\<lambda>f. Inr png_data_url),
      ToString_other = (\<lambda>v. Inr (lit ''[object Object]''))\<rparr>"

text \<open>A complete descriptor: \<^verbatim>\<open>{"textures":{"SKIN":{"url":"https://textures.minecraft.net/texture/xyz"}}}\<close>.\<close>

definition notch_skin_url :: jsstring where
  "notch_skin_url = lit ''https://textures.minecraft.net/texture/xyz''"

definition complete_encoded :: jsstring where
  "complete_encoded =
     lit ''eyJ0ZXh0dXJlcyI6eyJTS0lOIjp7InVybCI6Imh0dHBzOi8vdGV4dHVyZXMubWluZWNyYWZ0Lm5ldC90ZXh0dXJlL3h5eiJ9fX0=''"

definition complete_decoded :: jsstring where
  \<open>complete_decoded =
     lit ''{"textures":{"SKIN":{"url":"https://textures.minecraft.net/texture/xyz"}}}''\<close>

definition complete_parsed :: jsval where
  "complete_parsed =
     JObject [(lit ''textures'',
               JObject [(lit ''SKIN'', JObject [(lit ''url'', JString notch_skin_url)])])]"

definition env_notch :: env where
  "env_notch = upstream complete_encoded complete_decoded complete_parsed"

text \<open>A descriptor without a skin, \<^verbatim>\<open>{"textures":{}}\<close>, and the empty object \<^verbatim>\<open>{}\<close>.\<close>

definition no_skin_encoded :: jsstring where
  "no_skin_encoded = lit ''eyJ0ZXh0dXJlcyI6e319''"

definition no_skin_decoded :: jsstring where
  \<open>no_skin_decoded = lit ''{"textures":{}}''\<close>

definition no_skin_parsed :: jsval where
  "no_skin_parsed = JObject [(lit ''textures'', JObject [])]"

definition env_no_skin :: env where
  "env_no_skin = upstream no_skin_encoded no_skin_decoded no_skin_parsed"

definition empty_encoded :: jsstring where
  "empty_encoded = lit ''e30=''"

definition empty_decoded :: jsstring where
  "empty_decoded = lit ''{}''"

definition empty_parsed :: jsval where
  "empty_parsed = JObject []"

definition env_no_textures :: env where
  "env_no_textures = upstream empty_encoded empty_decoded empty_parsed"

text \<open>The same upstream with a renderer that rejects every skin.\<close>

definition env_rejecting :: env where
  "env_rejecting = env_notch\<lparr>loadSkin := (\<lambda>src. Inl LoadError)\<rparr>"

definition page_with_saved_skin :: state where
  "page_with_saved_skin =
     page_loading\<lparr>localStorage := [currentSkin \<mapsto> notch_skin_url, currentPlayerName \<mapsto> lit ''Notch'']\<rparr>"

definition skin_png :: File where
  "skin_png = \<lparr>file_name = lit ''skin.png'', file_type = lit ''image/png'', file_size = 1024\<rparr>"

definition dropped_png :: File where
  "dropped_png = \<lparr>file_name = lit ''steve.png'', file_type = [], file_size = 2048\<rparr>"

definition big_png :: File where
  "big_png = \<lparr>file_name = lit ''huge.png'', file_type = lit ''image/png'', file_size = 6291456\<rparr>"

definition big_txt :: File where
  "big_txt = \<lparr>file_name = lit ''notes.txt'', file_type = lit ''text/plain'', file_size = 5242881\<rparr>"

section \<open>Running the actions\<close>

text \<open>
  Rewrite rules that run an action step by step: a pure step either throws or hands its
  value on, a state update is applied, \<^verbatim>\<open>return\<close> discards what follows.
\<close>

lemma bind_lift: "bind_js (lift r) f s = (case r of Inl x \<Rightarrow> (Throw x, s) | Inr v \<Rightarrow> f v s)"
  by (simp add: bind_js_def lift_def split: sum.splits)

lemma bind_modify: "bind_js (modify g) f s = f () (g s)"
  by (simp add: bind_js_def modify_def)

lemma bind_return: "bind_js return_js f s = (Return, s)"
  by (simp add: bind_js_def return_js_def)

lemma bind_unit: "bind_js (unit_js x) f s = f x s"
  by (simp add: bind_js_def unit_js_def)

lemma bind_assoc: "bind_js (bind_js m f) g s = bind_js m (\<lambda>x. bind_js (f x) g) s"
  by (simp add: bind_js_def split: prod.splits completion.splits)

lemma bind_if: "bind_js (if b then m else n) f s = (if b then bind_js m f s else bind_js n f s)"
  by simp

lemma bind_getItem: "bind_js (getItem k) f s = f (localStorage s k) s"
  by (simp add: bind_js_def getItem_def)

lemmas run_simps = bind_lift bind_modify bind_return bind_unit bind_assoc bind_if
  setStatus_def setItem_def removeItem_def record_call_def await_fetch_def await_loadSkin_def
  modify_def return_js_def unit_js_def lift_def

section \<open>The name lookup\<close>

lemma name_lookup_flat:
  "name_lookup e input s =
     (if \<not> matches hex32 input \<and> \<not> matches dashedUUID input then
       (case encodeURIComponent (mojangUrl input) of
        Inl x \<Rightarrow> (Throw x, s)
      | Inr enc \<Rightarrow>
          (case fetch e (proxied enc) of
             Inl x \<Rightarrow> (Throw x, s\<lparr>calls := calls s @ [NameLookup (proxied enc)]\<rparr>)
           | Inr r \<Rightarrow>
               if \<not> ok r then
                 (Return, s\<lparr>calls := calls s @ [NameLookup (proxied enc)],
                    statusText := (if status r = 404 then msg_not_found input else msg_profile_failed, True)\<rparr>)
               else
                 (case json r of
                    Inl x \<Rightarrow> (Throw x, s\<lparr>calls := calls s @ [NameLookup (proxied enc)]\<rparr>)
                  | Inr profileData \<Rightarrow>
                      (case getProp profileData (lit ''id'') of
                         Inl x \<Rightarrow> (Throw x, s\<lparr>calls := calls s @ [NameLookup (proxied enc)]\<rparr>)
                       | Inr uuid \<Rightarrow>
                           (case getProp profileData (lit ''name'') of
                              Inl x \<Rightarrow> (Throw x, s\<lparr>calls := calls s @ [NameLookup (proxied enc)]\<rparr>)
                            | Inr playerName \<Rightarrow>
                                (Normal (uuid, playerName),
                                 s\<lparr>calls := calls s @ [NameLookup (proxied enc)]\<rparr>))))))
      else (Normal (JString input, JString input), s))"
  by (simp add: name_lookup_def run_simps split: sum.split)

lemma name_lookup_uuid:
  "matches hex32 input \<or> matches dashedUUID input \<Longrightarrow>
   name_lookup e input s = (Normal (JString input, JString input), s)"
  by (auto simp: name_lookup_flat)

lemma name_lookup_frame:
  assumes "name_lookup e input s = (c, s1)"
  shows "viewer s1 = viewer s" and "localStorage s1 = localStorage s"
    and "fetchSkinBtn_disabled s1 = fetchSkinBtn_disabled s"
    and "animationToggle_checked s1 = animationToggle_checked s"
proof -
  have "case name_lookup e input s of (c, s1) \<Rightarrow>
          viewer s1 = viewer s \<and> localStorage s1 = localStorage s \<and>
          fetchSkinBtn_disabled s1 = fetchSkinBtn_disabled s \<and>
          animationToggle_checked s1 = animationToggle_checked s"
    by (cases "matches hex32 input"; cases "matches dashedUUID input")
       (simp_all add: name_lookup_flat split: sum.split)
  with assms show "viewer s1 = viewer s" and "localStorage s1 = localStorage s"
    and "fetchSkinBtn_disabled s1 = fetchSkinBtn_disabled s"
    and "animationToggle_checked s1 = animationToggle_checked s" by simp_all
qed

lemma name_lookup_calls:
  assumes "name_lookup e input s = (c, s1)"
  shows "calls s1 = calls s \<or>
         (\<exists>enc. \<not> matches hex32 input \<and> \<not> matches dashedUUID input \<and>
            encodeURIComponent (mojangUrl input) = Inr enc \<and>
            calls s1 = calls s @ [NameLookup (proxied enc)])"
proof -
  have "case name_lookup e input s of (c, s1) \<Rightarrow> calls s1 = calls s \<or>
         (\<exists>enc. \<not> matches hex32 input \<and> \<not> matches dashedUUID input \<and>
            encodeURIComponent (mojangUrl input) = Inr enc \<and>
            calls s1 = calls s @ [NameLookup (proxied enc)])"
    by (cases "matches hex32 input"; cases "matches dashedUUID input")
       (simp_all add: name_lookup_flat split: sum.split)
  with assms show ?thesis by simp
qed

lemma name_lookup_appends:
  assumes "name_lookup e input s = (c, s1)"
  shows "\<exists>cs. calls s1 = calls s @ cs \<and> (\<forall>v. LoadSkin v \<notin> set cs) \<and>
           (\<forall>u. ProfileByUUID u \<notin> set cs)"
  using name_lookup_calls [OF assms] by auto

lemma name_lookup_name_calls:
  assumes "name_lookup e input s = (c, s1)"
      and "\<not> matches hex32 input" "\<not> matches dashedUUID input"
      and "encodeURIComponent (mojangUrl input) = Inr enc"
  shows "calls s1 = calls s @ [NameLookup (proxied enc)]"
proof -
  have "case name_lookup e input s of (c, s1) \<Rightarrow> calls s1 = calls s @ [NameLookup (proxied enc)]"
    using assms(2-) by (simp add: name_lookup_flat split: sum.split)
  with assms show ?thesis by simp
qed


text \<open>
  A second lookup of the same input, from any state, completes the same way and makes
  the same call and the same status update.
\<close>

lemma name_lookup_again:
  "case name_lookup e input s of (c, s') \<Rightarrow>
     (\<forall>t. name_lookup e input t =
          (c, t\<lparr>calls := calls t @ drop (length (calls s)) (calls s'),
               statusText := (case c of Return \<Rightarrow> statusText s' | _ \<Rightarrow> statusText t)\<rparr>))"
  by (cases "matches hex32 input"; cases "matches dashedUUID input")
     (simp_all add: name_lookup_flat split: sum.split)

section \<open>The profile request and the load\<close>

lemma load_profile_summary:
  "case load_profile e uuid s of (c, s') \<Rightarrow>
     viewer s' = viewer s \<and> fetchSkinBtn_disabled s' = fetchSkinBtn_disabled s \<and>
     animationToggle_checked s' = animationToggle_checked s \<and>
     (\<exists>cs. calls s' = calls s @ cs \<and> \<not> list_ex is_NameLookup cs \<and>
       (\<forall>v x. LoadSkin v \<in> set cs \<longrightarrow> loadSkin e v = Inl x \<longrightarrow>
          localStorage s' = localStorage s \<and> c = Throw x) \<and>
       (case callReplace uuid of
          Inl x \<Rightarrow> cs = []
        | Inr u \<Rightarrow>
           (case encodeURIComponent (sessionUrl u) of
              Inl x \<Rightarrow> cs = []
            | Inr enc \<Rightarrow> \<exists>rest. cs = ProfileByUUID (proxied enc) # rest \<and>
                \<not> list_ex is_ProfileByUUID rest)))"
  unfolding load_profile_def
  by (simp add: run_simps split: sum.split)

lemma load_profile_effects:
  assumes "load_profile e uuid s = (c, s')"
  shows "viewer s' = viewer s" and "fetchSkinBtn_disabled s' = fetchSkinBtn_disabled s"
    and "animationToggle_checked s' = animationToggle_checked s"
    and "\<exists>cs. calls s' = calls s @ cs \<and> \<not> list_ex is_NameLookup cs \<and>
       (\<forall>v x. LoadSkin v \<in> set cs \<longrightarrow> loadSkin e v = Inl x \<longrightarrow>
          localStorage s' = localStorage s \<and> c = Throw x) \<and>
       (case callReplace uuid of
          Inl x \<Rightarrow> cs = []
        | Inr u \<Rightarrow>
           (case encodeURIComponent (sessionUrl u) of
              Inl x \<Rightarrow> cs = []
            | Inr enc \<Rightarrow> \<exists>rest. cs = ProfileByUUID (proxied enc) # rest \<and>
                \<not> list_ex is_ProfileByUUID rest))"
  using load_profile_summary [where e=e and uuid=uuid and s=s] assms by simp_all

lemma getProp_defined: "getProp v k = Inr x \<Longrightarrow> \<exists>y. getProp v k' = Inr y"
  by (cases v) simp_all

text \<open>
  The run of \<open>load_profile\<close> up to line 83 when every step before the descriptor
  succeeds.
\<close>

lemma load_profile_decoded:
  assumes "callReplace uuid = Inr u" and "encodeURIComponent (sessionUrl u) = Inr enc"
      and "fetch e (proxied enc) = Inr r" and "ok r" and "json r = Inr sessionData"
      and "getProp sessionData (lit ''properties'') = Inr props"
      and "callFind props = Inr texturesProperty" and "truthy texturesProperty"
      and "getProp texturesProperty (lit ''value'') = Inr encoded"
      and "atob e encoded = Inr decoded" and "JSON_parse e decoded = Inr texturesJson"
  shows "skinUrlOf texturesJson = Inl x \<Longrightarrow>
           load_profile e uuid s = (Throw x, s\<lparr>calls := calls s @ [ProfileByUUID (proxied enc)]\<rparr>)"
    and "skinUrlOf texturesJson = Inr skinUrl \<Longrightarrow> \<not> truthy skinUrl \<Longrightarrow>
           load_profile e uuid s =
             (Return, s\<lparr>calls := calls s @ [ProfileByUUID (proxied enc)],
                         statusText := (msg_no_skin, True)\<rparr>)"
proof -
  from assms(6) obtain playerName where "getProp sessionData (lit ''name'') = Inr playerName"
    using getProp_defined by blast
  with assms show "skinUrlOf texturesJson = Inl x \<Longrightarrow>
           load_profile e uuid s = (Throw x, s\<lparr>calls := calls s @ [ProfileByUUID (proxied enc)]\<rparr>)"
    and "skinUrlOf texturesJson = Inr skinUrl \<Longrightarrow> \<not> truthy skinUrl \<Longrightarrow>
           load_profile e uuid s =
             (Return, s\<lparr>calls := calls s @ [ProfileByUUID (proxied enc)],
                         statusText := (msg_no_skin, True)\<rparr>)"
    by (simp_all add: load_profile_def run_simps)
qed

text \<open>
  A second run of \<open>load_profile\<close>, from any state whose storage is the one the first run
  left, completes the same way, makes the same calls and leaves the storage as it is.
\<close>

lemma load_profile_again:
  "case load_profile e uuid s of (c, s') \<Rightarrow>
     (\<forall>t. localStorage t = localStorage s' \<longrightarrow>
        load_profile e uuid t =
          (c, t\<lparr>calls := calls t @ drop (length (calls s)) (calls s'),
               statusText := (case c of Throw x \<Rightarrow> statusText t | _ \<Rightarrow> statusText s')\<rparr>))"
  unfolding load_profile_def
  by (simp add: run_simps split: sum.split)

section \<open>fetchSkinFromMojang as a whole\<close>

lemma fetch_uninit:
  "viewer s = None \<Longrightarrow>
   fetchSkinFromMojang e raw s = (Return, s\<lparr>statusText := (msg_starting, True)\<rparr>)"
  by (simp add: fetchSkinFromMojang_def run_simps)

lemma fetch_empty:
  assumes "viewer s \<noteq> None" and "trim raw = []"
  shows "fetchSkinFromMojang e raw s = (Return, s\<lparr>statusText := (msg_enter, True)\<rparr>)"
  using assms by (auto simp add: fetchSkinFromMojang_def run_simps)

lemma fetch_run:
  assumes "viewer s \<noteq> None" and "trim raw \<noteq> []"
  shows "fetchSkinFromMojang e raw s =
     (case fetchSkin_try e (trim raw)
             (s\<lparr>fetchSkinBtn_disabled := True, statusText := (msg_fetching, False)\<rparr>) of
        (Throw x, s1) \<Rightarrow>
          (Normal (), s1\<lparr>statusText := (msg_fetch_error, True), fetchSkinBtn_disabled := False\<rparr>)
      | (c, s1) \<Rightarrow> (c, s1\<lparr>fetchSkinBtn_disabled := False\<rparr>))"
  using assms
  by (auto simp add: fetchSkinFromMojang_def run_simps try_catch_finally_def
           split: prod.splits completion.splits)

lemma fetch_returned:
  assumes "viewer s \<noteq> None" and "trim raw \<noteq> []"
      and "name_lookup e (trim raw)
             (s\<lparr>fetchSkinBtn_disabled := True, statusText := (msg_fetching, False)\<rparr>) = (Return, s1)"
  shows "fetchSkinFromMojang e raw s = (Return, s1\<lparr>fetchSkinBtn_disabled := False\<rparr>)"
  using assms by (simp add: fetch_run fetchSkin_try_def bind_js_def)

lemma fetch_thrown:
  assumes "viewer s \<noteq> None" and "trim raw \<noteq> []"
      and "name_lookup e (trim raw)
             (s\<lparr>fetchSkinBtn_disabled := True, statusText := (msg_fetching, False)\<rparr>) = (Throw x, s1)"
  shows "fetchSkinFromMojang e raw s =
           (Normal (), s1\<lparr>statusText := (msg_fetch_error, True), fetchSkinBtn_disabled := False\<rparr>)"
  using assms by (simp add: fetch_run fetchSkin_try_def bind_js_def)

lemma fetch_profile:
  assumes "viewer s \<noteq> None" and "trim raw \<noteq> []"
      and "name_lookup e (trim raw)
             (s\<lparr>fetchSkinBtn_disabled := True, statusText := (msg_fetching, False)\<rparr>) =
           (Normal (uuid, playerName), s1)"
      and "load_profile e uuid s1 = (c2, s2)"
  shows "fetchSkinFromMojang e raw s =
         (case c2 of
            Throw x \<Rightarrow> (Normal (), s2\<lparr>statusText := (msg_fetch_error, True), fetchSkinBtn_disabled := False\<rparr>)
          | _ \<Rightarrow> (c2, s2\<lparr>fetchSkinBtn_disabled := False\<rparr>))"
  using assms by (simp add: fetch_run fetchSkin_try_def bind_js_def split: completion.splits)

text \<open>
  The four ways a call with a started viewer can go: empty input, a \<^verbatim>\<open>return\<close> inside
  the name lookup, an exception inside the name lookup, or the profile step is reached.
\<close>

lemma fetch_cases [consumes 1, case_names empty returned thrown profile]:
  assumes "viewer s \<noteq> None"
    and "\<lbrakk>trim raw = [];
          fetchSkinFromMojang e raw s = (Return, s\<lparr>statusText := (msg_enter, True)\<rparr>)\<rbrakk> \<Longrightarrow> thesis"
    and "\<And>s1. \<lbrakk>trim raw \<noteq> [];
          name_lookup e (trim raw)
            (s\<lparr>fetchSkinBtn_disabled := True, statusText := (msg_fetching, False)\<rparr>) = (Return, s1);
          fetchSkinFromMojang e raw s = (Return, s1\<lparr>fetchSkinBtn_disabled := False\<rparr>)\<rbrakk> \<Longrightarrow> thesis"
    and "\<And>x s1. \<lbrakk>trim raw \<noteq> [];
          name_lookup e (trim raw)
            (s\<lparr>fetchSkinBtn_disabled := True, statusText := (msg_fetching, False)\<rparr>) = (Throw x, s1);
          fetchSkinFromMojang e raw s =
            (Normal (), s1\<lparr>statusText := (msg_fetch_error, True), fetchSkinBtn_disabled := False\<rparr>)\<rbrakk>
          \<Longrightarrow> thesis"
    and "\<And>uuid playerName s1 c2 s2. \<lbrakk>trim raw \<noteq> [];
          name_lookup e (trim raw)
            (s\<lparr>fetchSkinBtn_disabled := True, statusText := (msg_fetching, False)\<rparr>) =
              (Normal (uuid, playerName), s1);
          load_profile e uuid s1 = (c2, s2);
          fetchSkinFromMojang e raw s =
            (case c2 of
               Throw x \<Rightarrow>
                 (Normal (), s2\<lparr>statusText := (msg_fetch_error, True), fetchSkinBtn_disabled := False\<rparr>)
             | _ \<Rightarrow> (c2, s2\<lparr>fetchSkinBtn_disabled := False\<rparr>))\<rbrakk> \<Longrightarrow> thesis"
  shows thesis
proof (cases "trim raw = []")
  case True
  with assms(1,2) show ?thesis by (simp add: fetch_empty)
next
  case False
  let ?s0 = "s\<lparr>fetchSkinBtn_disabled := True, statusText := (msg_fetching, False)\<rparr>"
  obtain c1 s1 where nl: "name_lookup e (trim raw) ?s0 = (c1, s1)" by fastforce
  show ?thesis
  proof (cases c1)
    case (Normal p)
    obtain c2 s2 where lp: "load_profile e (fst p) s1 = (c2, s2)" by fastforce
    from nl Normal have "name_lookup e (trim raw) ?s0 = (Normal (fst p, snd p), s1)" by simp
    from assms(5) [OF False this lp fetch_profile [OF assms(1) False this lp]] show ?thesis .
  next
    case Return
    with nl have "name_lookup e (trim raw) ?s0 = (Return, s1)" by simp
    from assms(3) [OF False this fetch_returned [OF assms(1) False this]] show ?thesis .
  next
    case (Throw x)
    with nl have "name_lookup e (trim raw) ?s0 = (Throw x, s1)" by simp
    from assms(4) [OF False this fetch_thrown [OF assms(1) False this]] show ?thesis .
  qed
qed

lemma fetch_final:
  assumes "fetchSkinFromMojang e raw s =
         (case c2 of
            Throw x \<Rightarrow> (Normal (), s2\<lparr>statusText := (msg_fetch_error, True), fetchSkinBtn_disabled := False\<rparr>)
          | _ \<Rightarrow> (c2, s2\<lparr>fetchSkinBtn_disabled := False\<rparr>))"
  shows "calls (snd (fetchSkinFromMojang e raw s)) = calls s2"
    and "localStorage (snd (fetchSkinFromMojang e raw s)) = localStorage s2"
    and "statusText (snd (fetchSkinFromMojang e raw s)) =
           (case c2 of Throw x \<Rightarrow> (msg_fetch_error, True) | _ \<Rightarrow> statusText s2)"
    and "fst (fetchSkinFromMojang e raw s) = (case c2 of Throw x \<Rightarrow> Normal () | _ \<Rightarrow> c2)"
  using assms by (simp_all split: completion.splits)

text \<open>A name-lookup request in the log was made for the trimmed input.\<close>

lemma fetch_call_started:
  assumes "c \<in> set (new_calls s (snd (fetchSkinFromMojang e raw s)))"
  shows "viewer s \<noteq> None"
proof
  assume "viewer s = None"
  with assms show False by (simp add: fetch_uninit new_calls_def)
qed


text \<open>A profile request in the log was made by \<open>load_profile\<close> for the dash-free UUID.\<close>

lemma fetch_profile_call:
  assumes call: "ProfileByUUID url \<in> set (new_calls s (snd (fetchSkinFromMojang e raw s)))"
  shows "\<exists>uuid playerName s1 c2 s2 u enc.
      name_lookup e (trim raw) (s\<lparr>fetchSkinBtn_disabled := True, statusText := (msg_fetching, False)\<rparr>) =
         (Normal (uuid, playerName), s1) \<and>
      load_profile e uuid s1 = (c2, s2) \<and>
      fetchSkinFromMojang e raw s =
         (case c2 of
            Throw x \<Rightarrow> (Normal (), s2\<lparr>statusText := (msg_fetch_error, True), fetchSkinBtn_disabled := False\<rparr>)
          | _ \<Rightarrow> (c2, s2\<lparr>fetchSkinBtn_disabled := False\<rparr>)) \<and>
      callReplace uuid = Inr u \<and> encodeURIComponent (sessionUrl u) = Inr enc \<and> url = proxied enc"
  using fetch_call_started [OF call]
proof (cases rule: fetch_cases [where raw = raw and e = e])
  case empty
  with call show ?thesis by (simp add: new_calls_def)
next
  case (returned s1)
  from name_lookup_calls [OF returned(2)] returned(3) call show ?thesis
    by (auto simp: new_calls_def)
next
  case (thrown x s1)
  from name_lookup_calls [OF thrown(2)] thrown(3) call show ?thesis
    by (auto simp: new_calls_def)
next
  case (profile uuid playerName s1 c2 s2)
  from load_profile_effects(4) [OF profile(3)] obtain cs where
    cs: "calls s2 = calls s1 @ cs"
    and shape: "case callReplace uuid of
          Inl x \<Rightarrow> cs = []
        | Inr u \<Rightarrow>
           (case encodeURIComponent (sessionUrl u) of
              Inl x \<Rightarrow> cs = []
            | Inr enc \<Rightarrow> \<exists>rest. cs = ProfileByUUID (proxied enc) # rest \<and>
                \<not> list_ex is_ProfileByUUID rest)" by blast
  from name_lookup_calls [OF profile(2)] cs call fetch_final(1) [OF profile(4)]
  have in_cs: "ProfileByUUID url \<in> set cs" by (auto simp: new_calls_def)
  with shape obtain u where u: "callReplace uuid = Inr u" by (cases "callReplace uuid") auto
  with shape in_cs obtain enc where enc: "encodeURIComponent (sessionUrl u) = Inr enc"
    by (cases "encodeURIComponent (sessionUrl u)") auto
  with shape u in_cs have "url = proxied enc" by (fastforce simp: list_ex_iff)
  with profile u enc show ?thesis by blast
qed

section \<open>Strings that match a UUID pattern\<close>

lemma matches_length:
  "matches hex32 s \<Longrightarrow> length s = 32" "matches dashedUUID s \<Longrightarrow> length s = 36"
  by (auto simp: matches_def hex32_def dashedUUID_def dest: list_all2_lengthD)

lemma matches_chars:
  "list_all2 inClass p s \<Longrightarrow> \<forall>c\<in>set s. isHexDigit c \<or> c = 0x2D"
proof (induction rule: list_all2_induct)
  case Nil
  then show ?case by simp
next
  case (Cons x xs y ys)
  then show ?case by (cases x) auto
qed

lemma hex_not_surrogate:
  "isHexDigit c \<or> c = 0x2D \<Longrightarrow> \<not> isHighSurrogate c \<and> \<not> isLowSurrogate c"
  by (auto simp: isHexDigit_def isHighSurrogate_def isLowSurrogate_def word_le_nat_alt)

text \<open>\<open>encodeURIComponent\<close> throws only on a surrogate code unit.\<close>

lemma encode_total:
  "\<forall>c\<in>set s. \<not> isHighSurrogate c \<and> \<not> isLowSurrogate c \<Longrightarrow> \<exists>enc. encodeURIComponent s = Inr enc"
proof (induction s rule: encodeURIComponent.induct)
  case 1
  then show ?case by simp
next
  case (2 c)
  then show ?case by simp
next
  case (3 c d ds)
  then show ?case by (cases "uriUnescaped c") auto
qed

lemma sessionUrl_plain:
  "\<forall>c\<in>set (lit ''https://sessionserver.mojang.com/session/minecraft/profile/'').
     \<not> isHighSurrogate c \<and> \<not> isLowSurrogate c"
  by (simp add: lit_def isHighSurrogate_def isLowSurrogate_def)

lemma uuid_session_encodes:
  assumes "matches hex32 input \<or> matches dashedUUID input"
  shows "\<exists>enc. encodeURIComponent (sessionUrl (removeDashes input)) = Inr enc"
proof -
  from assms have "\<forall>c\<in>set input. isHexDigit c \<or> c = 0x2D"
    using matches_chars by (auto simp: matches_def)
  then have "\<forall>c\<in>set (removeDashes input). \<not> isHighSurrogate c \<and> \<not> isLowSurrogate c"
    using hex_not_surrogate by (auto simp: removeDashes_def)
  with sessionUrl_plain show ?thesis
    unfolding sessionUrl_def by (intro encode_total) auto
qed

section \<open>The calls of one fetch\<close>

lemma fetch_uuid_calls:
  assumes v: "viewer s \<noteq> None"
      and uuid: "matches hex32 (trim raw) \<or> matches dashedUUID (trim raw)"
  shows "\<exists>enc rest. encodeURIComponent (sessionUrl (removeDashes (trim raw))) = Inr enc \<and>
           new_calls s (snd (fetchSkinFromMojang e raw s)) = ProfileByUUID (proxied enc) # rest \<and>
           \<not> list_ex is_NameLookup rest \<and> \<not> list_ex is_ProfileByUUID rest"
proof -
  let ?s0 = "s\<lparr>fetchSkinBtn_disabled := True, statusText := (msg_fetching, False)\<rparr>"
  from uuid have ne: "trim raw \<noteq> []" using matches_length [of "trim raw"] by auto
  from uuid obtain enc where enc: "encodeURIComponent (sessionUrl (removeDashes (trim raw))) = Inr enc"
    using uuid_session_encodes by blast
  have nl: "name_lookup e (trim raw) ?s0 = (Normal (JString (trim raw), JString (trim raw)), ?s0)"
    using uuid by (rule name_lookup_uuid)
  from v show ?thesis
  proof (cases rule: fetch_cases [where raw = raw and e = e])
    case (profile uuid playerName s1 c2 s2)
    with nl have s1: "s1 = ?s0" and u: "uuid = JString (trim raw)" by simp_all
    from load_profile_effects(4) [OF profile(3)] u enc obtain rest where
      "calls s2 = calls s1 @ ProfileByUUID (proxied enc) # rest"
      "\<not> list_ex is_NameLookup rest" "\<not> list_ex is_ProfileByUUID rest"
      by (auto simp: callReplace_def)
    with fetch_final(1) [OF profile(4)] s1 enc show ?thesis
      by (simp add: new_calls_def)
  qed (use ne nl in simp_all)
qed

lemma fetch_name_calls:
  assumes v: "viewer s \<noteq> None"
      and name: "\<not> matches hex32 (trim raw)" "\<not> matches dashedUUID (trim raw)" "trim raw \<noteq> []"
  shows "case encodeURIComponent (mojangUrl (trim raw)) of
           Inr enc \<Rightarrow> \<exists>rest. new_calls s (snd (fetchSkinFromMojang e raw s)) =
                               NameLookup (proxied enc) # rest \<and> \<not> list_ex is_NameLookup rest
         | Inl x \<Rightarrow>
             fetchSkinFromMojang e raw s =
               (Normal (), s\<lparr>statusText := (msg_fetch_error, True), fetchSkinBtn_disabled := False\<rparr>) \<and>
             new_calls s (snd (fetchSkinFromMojang e raw s)) = [] \<and>
             statusText (snd (fetchSkinFromMojang e raw s)) = (msg_fetch_error, True) \<and>
             localStorage (snd (fetchSkinFromMojang e raw s)) = localStorage s"
proof (cases "encodeURIComponent (mojangUrl (trim raw))")
  case (Inl x)
  let ?s0 = "s\<lparr>fetchSkinBtn_disabled := True, statusText := (msg_fetching, False)\<rparr>"
  from Inl name have nl: "name_lookup e (trim raw) ?s0 = (Throw x, ?s0)"
    by (simp add: name_lookup_flat)
  have run: "fetchSkinFromMojang e raw s =
      (Normal (), s\<lparr>statusText := (msg_fetch_error, True), fetchSkinBtn_disabled := False\<rparr>)"
    using fetch_thrown [OF v name(3) nl] by simp
  then have "new_calls s (snd (fetchSkinFromMojang e raw s)) = []"
        and "statusText (snd (fetchSkinFromMojang e raw s)) = (msg_fetch_error, True)"
        and "localStorage (snd (fetchSkinFromMojang e raw s)) = localStorage s"
    by (simp_all add: new_calls_def)
  with Inl run show ?thesis by simp
next
  case (Inr enc)
  from v have "\<exists>rest. new_calls s (snd (fetchSkinFromMojang e raw s)) =
                  NameLookup (proxied enc) # rest \<and> \<not> list_ex is_NameLookup rest"
  proof (cases rule: fetch_cases [where raw = raw and e = e])
    case empty
    with name show ?thesis by simp
  next
    case (returned s1)
    from name_lookup_name_calls [OF returned(2) name(1,2) Inr] returned(3)
    show ?thesis by (simp add: new_calls_def)
  next
    case (thrown x s1)
    from name_lookup_name_calls [OF thrown(2) name(1,2) Inr] thrown(3)
    show ?thesis by (simp add: new_calls_def)
  next
    case (profile uuid playerName s1 c2 s2)
    from load_profile_effects(4) [OF profile(3)] obtain cs where
      "calls s2 = calls s1 @ cs" "\<not> list_ex is_NameLookup cs" by blast
    with name_lookup_name_calls [OF profile(2) name(1,2) Inr] fetch_final(1) [OF profile(4)]
    show ?thesis by (simp add: new_calls_def)
  qed
  with Inr show ?thesis by simp
qed

lemma fetch_rejected:
  assumes rej: "loadSkin e v = Inl x"
      and call: "LoadSkin v \<in> set (new_calls s (snd (fetchSkinFromMojang e raw s)))"
  shows "localStorage (snd (fetchSkinFromMojang e raw s)) = localStorage s \<and>
         statusText (snd (fetchSkinFromMojang e raw s)) = (msg_fetch_error, True)"
proof (cases "viewer s = None")
  case True
  with call show ?thesis by (simp add: fetch_uninit new_calls_def)
next
  case False
  then show ?thesis
  proof (cases rule: fetch_cases [where raw = raw and e = e])
    case empty
    with call show ?thesis by (simp add: new_calls_def)
  next
    case (returned s1)
    from name_lookup_appends [OF returned(2)] returned(3) call show ?thesis
      by (auto simp: new_calls_def)
  next
    case (thrown x s1)
    from name_lookup_appends [OF thrown(2)] thrown(3) call show ?thesis
      by (auto simp: new_calls_def)
  next
    case (profile uuid playerName s1 c2 s2)
    from name_lookup_appends [OF profile(2)] obtain d1 where
      d1: "calls s1 = calls s @ d1" "\<forall>v. LoadSkin v \<notin> set d1" by auto
    from load_profile_effects(4) [OF profile(3)] obtain d2 where
      d2: "calls s2 = calls s1 @ d2"
      and safe: "\<forall>v x. LoadSkin v \<in> set d2 \<longrightarrow> loadSkin e v = Inl x \<longrightarrow>
                   localStorage s2 = localStorage s1 \<and> c2 = Throw x" by blast
    from d1(2) have "LoadSkin v \<notin> set d1" by simp
    with call d1 d2 fetch_final(1) [OF profile(4)] have "LoadSkin v \<in> set d2"
      by (simp add: new_calls_def)
    with safe rej have "localStorage s2 = localStorage s1" "c2 = Throw x" by blast+
    with fetch_final(2,3) [OF profile(4)] name_lookup_frame(2) [OF profile(2)]
    show ?thesis by simp
  qed
qed

section \<open>readSkinFile and initializeViewer\<close>

lemma on_reader_load_flat:
  "on_reader_load e skinData s =
     (case loadSkin e (JString skinData) of
        Inl x \<Rightarrow>
          (Normal (), s\<lparr>calls := calls s @ [LoadSkin (JString skinData)],
                         statusText := (msg_read_failed, True)\<rparr>)
      | Inr u \<Rightarrow>
          (Normal (), s\<lparr>calls := calls s @ [LoadSkin (JString skinData)],
                         localStorage := (localStorage s)(currentSkin \<mapsto> skinData, currentPlayerName := None),
                         statusText := (msg_skin_loaded, False)\<rparr>))"
  by (simp add: on_reader_load_def try_catch_def try_catch_finally_def run_simps split: sum.split)

lemma readSkinFile_flat:
  assumes "viewer s \<noteq> None"
  shows "readSkinFile e (Some f) s =
     (if \<not> (file_type f = lit ''image/png'' \<or> endsWith (file_name f) (lit ''.png'')) then
        (Return, s\<lparr>statusText := (msg_select_png, True)\<rparr>)
      else if 5 * 1024 * 1024 < file_size f then
        (Return, s\<lparr>statusText := (msg_too_large, True)\<rparr>)
      else
        (case readAsDataURL e f of
           Inl x \<Rightarrow>
             (Normal (), s\<lparr>statusText := (msg_could_not_read, True), calls := calls s @ [ReadAsDataURL f]\<rparr>)
         | Inr skinData \<Rightarrow>
             on_reader_load e skinData
               (s\<lparr>statusText := (msg_loading, False), calls := calls s @ [ReadAsDataURL f]\<rparr>)))"
  using assms by (auto simp add: readSkinFile_def run_simps Let_def split: sum.split)

lemma readSkinFile_rejected:
  assumes "loadSkin e v = Inl x"
      and "LoadSkin v \<in> set (new_calls s (snd (readSkinFile e upload s)))"
  shows "localStorage (snd (readSkinFile e upload s)) = localStorage s \<and>
         statusText (snd (readSkinFile e upload s)) = (msg_read_failed, True)"
proof (cases "viewer s = None")
  case True
  with assms(2) show ?thesis by (simp add: readSkinFile_def run_simps new_calls_def)
next
  case False
  show ?thesis
  proof (cases upload)
    case None
    with False assms(2) show ?thesis by (simp add: readSkinFile_def run_simps new_calls_def)
  next
    case (Some f)
    with False assms show ?thesis
      by (auto simp add: readSkinFile_flat on_reader_load_flat new_calls_def
               split: if_splits sum.splits)
  qed
qed

lemma initializeViewer_flat:
  "initializeViewer e s =
     (let enabled = (localStorage s animationEnabled \<noteq> Some (lit ''false''));
          s1 = s\<lparr>viewer := Some \<lparr>animation = (if enabled then Some WalkingAnimation else None)\<rparr>,
                  animationToggle_checked := enabled\<rparr>
      in if truthy_item (localStorage s currentSkin) then
           (case loadSkin e (JString (the (localStorage s currentSkin))) of
              Inl x \<Rightarrow>
                (Normal (),
                 s1\<lparr>calls := calls s @ [LoadSkin (JString (the (localStorage s currentSkin)))],
                    statusText := (msg_ready, False),
                    localStorage := (localStorage s)(currentSkin := None, currentPlayerName := None)\<rparr>)
            | Inr u \<Rightarrow>
                (Normal (),
                 s1\<lparr>calls := calls s @ [LoadSkin (JString (the (localStorage s currentSkin)))],
                    statusText :=
                      (if truthy_item (localStorage s currentPlayerName)
                       then msg_loaded_saved (the (localStorage s currentPlayerName))
                       else msg_loaded_saved_anon, False)\<rparr>))
         else (Normal (), s1\<lparr>statusText := (msg_ready, False)\<rparr>))"
  by (simp add: initializeViewer_def bind_getItem set_animation_def try_catch_def
        try_catch_finally_def run_simps Let_def split: sum.split)


lemma messages_distinct:
  "msg_select_png \<noteq> msg_too_large" "msg_select_png \<noteq> msg_could_not_read"
  "msg_select_png \<noteq> msg_read_failed" "msg_select_png \<noteq> msg_skin_loaded"
  "msg_too_large \<noteq> msg_could_not_read" "msg_too_large \<noteq> msg_read_failed"
  "msg_too_large \<noteq> msg_skin_loaded" "msg_fetch_error \<noteq> msg_no_skin"
  by (simp_all add: msg_select_png_def msg_too_large_def msg_could_not_read_def msg_read_failed_def
        msg_skin_loaded_def msg_fetch_error_def msg_no_skin_def lit_def)

section \<open>Facts about the example pages\<close>

lemma page_ready_started: "viewer page_ready \<noteq> None"
  by (simp add: page_ready_def)

lemma page_loading_not_started: "viewer page_loading = None"
  by (simp add: page_loading_def)

lemma trims:
  "trim notch_uuid = notch_uuid" "trim (lit ''Notch'') = lit ''Notch''"
  "trim (lit ''Herobrine'') = lit ''Herobrine''" "trim [0xD800] = [0xD800]"
  by (simp_all add: trim_def notch_uuid_def lit_def isWhiteSpace_def)

lemma notch_uuid_is_uuid: "matches hex32 notch_uuid"
  by code_simp

lemma names:
  "\<not> matches hex32 (lit ''Notch'')" "\<not> matches dashedUUID (lit ''Notch'')"
  "\<not> matches hex32 (lit ''Herobrine'')" "\<not> matches dashedUUID (lit ''Herobrine'')"
  "\<not> matches hex32 [0xD800]" "\<not> matches dashedUUID [0xD800]"
  "lit ''Notch'' \<noteq> []" "lit ''Herobrine'' \<noteq> []" "notch_uuid \<noteq> []"
  using matches_length [of "lit ''Notch''"] matches_length [of "lit ''Herobrine''"]
        matches_length [of "[0xD800]"]
  by (auto simp: lit_def notch_uuid_def)

lemmas encode_defs = mojangUrl_def sessionUrl_def lit_def uriUnescaped_def isHighSurrogate_def
  isLowSurrogate_def escapeCodePoint_def utf8_def percentEscape_def removeDashes_def notch_uuid_def
  proxied_def notch_lookup_url_def notch_session_url_def herobrine_lookup_url_def

lemma encodes:
  "encodeURIComponent (mojangUrl (lit ''Notch'')) =
     Inr (lit ''https%3A%2F%2Fapi.mojang.com%2Fusers%2Fprofiles%2Fminecraft%2FNotch'')"
  "encodeURIComponent (mojangUrl (lit ''Herobrine'')) =
     Inr (lit ''https%3A%2F%2Fapi.mojang.com%2Fusers%2Fprofiles%2Fminecraft%2FHerobrine'')"
  "encodeURIComponent (sessionUrl (removeDashes notch_uuid)) =
     Inr (lit ''https%3A%2F%2Fsessionserver.mojang.com%2Fsession%2Fminecraft%2Fprofile%2F069a79f444e94726a5befca90e38aaf5'')"
  "encodeURIComponent (mojangUrl [0xD800]) = Inl URIError"
  by (simp_all add: encode_defs)

lemma upstream_fetch:
  "fetch (upstream encoded decoded parsed) notch_lookup_url = Inr \<lparr>status = 200, json = Inr notch_profile\<rparr>"
  "fetch (upstream encoded decoded parsed) notch_session_url = Inr (session_response encoded)"
  "fetch (upstream encoded decoded parsed) herobrine_lookup_url = Inr not_found_response"
  by (simp_all add: upstream_def encode_defs)

lemma upstream_decoders:
  "atob (upstream encoded decoded parsed) (JString encoded) = Inr decoded"
  "JSON_parse (upstream encoded decoded parsed) decoded = Inr parsed"
  "loadSkin (upstream encoded decoded parsed) src = Inr ()"
  "readAsDataURL (upstream encoded decoded parsed) f = Inr png_data_url"
  by (simp_all add: upstream_def)

lemma profile_fields:
  "getProp notch_profile (lit ''id'') = Inr (JString notch_uuid)"
  "getProp notch_profile (lit ''name'') = Inr (JString (lit ''Notch''))"
  "getProp (notch_session encoded) (lit ''name'') = Inr (JString (lit ''Notch''))"
  "callReplace (JString notch_uuid) = Inr (removeDashes notch_uuid)"
  by (simp_all add: notch_profile_def notch_session_def callReplace_def lit_def)

lemma session_path:
  "getProp (notch_session encoded) (lit ''properties'') = Inr (JArray [textures_property encoded])"
  "callFind (JArray [textures_property encoded]) = Inr (textures_property encoded)"
  "truthy (textures_property encoded)"
  "getProp (textures_property encoded) (lit ''value'') = Inr (JString encoded)"
  by (simp_all add: notch_session_def textures_property_def callFind_def lit_def)

lemma session_response_ok:
  "ok (session_response encoded)" "json (session_response encoded) = Inr (notch_session encoded)"
  by (simp_all add: session_response_def ok_def)

lemma skin_urls:
  "skinUrlOf complete_parsed = Inr (JString notch_skin_url)" "notch_skin_url \<noteq> []"
  "skinUrlOf no_skin_parsed = Inr JUndefined" "skinUrlOf empty_parsed = Inl TypeError"
  by (simp_all add: skinUrlOf_def getPropOpt_def complete_parsed_def no_skin_parsed_def
        empty_parsed_def notch_skin_url_def lit_def)

lemma keys_distinct: "currentSkin \<noteq> currentPlayerName"
  by (simp add: currentSkin_def currentPlayerName_def lit_def)

lemmas upstream_facts = trims notch_uuid_is_uuid names encodes upstream_fetch upstream_decoders
  profile_fields session_path session_response_ok skin_urls keys_distinct

lemmas url_folds = notch_lookup_url_def [symmetric] notch_session_url_def [symmetric]
  herobrine_lookup_url_def [symmetric]

lemmas run_defs = fetchSkinFromMojang_def fetchSkin_try_def name_lookup_def load_profile_def
  try_catch_finally_def run_simps ToString_def ok_def new_calls_def session_response_def
  not_found_response_def Let_def

text \<open>
  The example scenario of the specification: \<^verbatim>\<open>Notch\<close> is looked up, the profile is
  requested, the skin URL of the descriptor is loaded and stored with the name.
\<close>

lemma notch_scenario:
  "case fetchSkinFromMojang env_notch (lit ''Notch'') page_ready of
     (c, s') \<Rightarrow>
       c = Normal () \<and>
       calls s' = [NameLookup notch_lookup_url, ProfileByUUID notch_session_url,
                   LoadSkin (JString notch_skin_url)] \<and>
       localStorage s' currentSkin = Some notch_skin_url \<and>
       localStorage s' currentPlayerName = Some (lit ''Notch'') \<and>
       statusText s' = (msg_loaded (lit ''Notch''), False) \<and> \<not> fetchSkinBtn_disabled s'"
  by (simp add: run_defs upstream_facts env_notch_def page_ready_def url_folds)

text \<open>With the rejecting renderer the same lookup reaches \<^verbatim>\<open>viewer.loadSkin\<close>, which fails.\<close>

lemma rejecting_runs:
  "loadSkin env_rejecting (JString notch_skin_url) = Inl LoadError"
  "LoadSkin (JString notch_skin_url) \<in>
     set (new_calls page_ready (snd (fetchSkinFromMojang env_rejecting (lit ''Notch'') page_ready)))"
  "loadSkin env_rejecting (JString png_data_url) = Inl LoadError"
  by (simp_all add: run_defs upstream_facts env_rejecting_def env_notch_def page_ready_def url_folds)

section \<open>The claims\<close>

subsection \<open>C1: which inputs cause a name lookup\<close>

text \<open>
  Claim C1 says that an input matching one of the two UUID patterns causes no name
  lookup and goes straight to the profile request, and that every other non-empty
  trimmed input causes exactly one name lookup before the profile request. The second
  half fails for an input that \<^verbatim>\<open>encodeURIComponent\<close> rejects: the string made of the
  single unpaired surrogate U+D800 is not empty after trimming and matches neither
  pattern, the URL encoding of line 39 throws before \<^verbatim>\<open>fetch\<close> is called, the
  \<^verbatim>\<open>catch\<close> block reports the generic error, and no request is made at all.
\<close>

theorem lone_surrogate_name_makes_no_lookup:
  "viewer page_ready \<noteq> None \<and> trim [0xD800] \<noteq> [] \<and>
   \<not> matches hex32 (trim [0xD800]) \<and> \<not> matches dashedUUID (trim [0xD800]) \<and>
   new_calls page_ready (snd (fetchSkinFromMojang env_notch [0xD800] page_ready)) = [] \<and>
   statusText (snd (fetchSkinFromMojang env_notch [0xD800] page_ready)) = (msg_fetch_error, True)"
proof -
  have ne: "trim [0xD800] \<noteq> []" by (simp add: trims)
  let ?s0 = "page_ready\<lparr>fetchSkinBtn_disabled := True, statusText := (msg_fetching, False)\<rparr>"
  have "name_lookup env_notch (trim [0xD800]) ?s0 = (Throw URIError, ?s0)"
    using names(5,6) encodes(4) by (simp add: name_lookup_flat trims)
  from fetch_thrown [OF page_ready_started ne this] page_ready_started ne names(5,6)
  show ?thesis by (simp add: new_calls_def trims)
qed

text \<open>
  Claim C1 as amended. With the viewer started: an input whose trimmed form matches the
  32-hex or the dashed pattern makes the profile request first, for the UUID with its
  dashes removed, and no name lookup at all; any other non-empty trimmed input that
  \<^verbatim>\<open>encodeURIComponent\<close> accepts makes exactly one name lookup, as its first call, so before
  any profile request; any other non-empty trimmed input, that is one that
  \<^verbatim>\<open>encodeURIComponent\<close> rejects, makes no call at all and ends with the generic error
  \<^verbatim>\<open>An error occurred while fetching the skin. Please try again.\<close> shown as an error, the
  button enabled again, and nothing else of the page changed, the storage included.
\<close>

theorem uuid_skips_lookup_and_encodable_name_looks_up_once:
  assumes "viewer s \<noteq> None"
  shows "(matches hex32 (trim raw) \<or> matches dashedUUID (trim raw) \<longrightarrow>
           (\<exists>enc rest. encodeURIComponent (sessionUrl (removeDashes (trim raw))) = Inr enc \<and>
              new_calls s (snd (fetchSkinFromMojang e raw s)) = ProfileByUUID (proxied enc) # rest \<and>
              \<not> list_ex is_NameLookup rest \<and> \<not> list_ex is_ProfileByUUID rest)) \<and>
         (\<not> matches hex32 (trim raw) \<and> \<not> matches dashedUUID (trim raw) \<and> trim raw \<noteq> [] \<longrightarrow>
           (case encodeURIComponent (mojangUrl (trim raw)) of
              Inr enc \<Rightarrow> \<exists>rest. new_calls s (snd (fetchSkinFromMojang e raw s)) =
                                  NameLookup (proxied enc) # rest \<and> \<not> list_ex is_NameLookup rest
            | Inl x \<Rightarrow>
                fetchSkinFromMojang e raw s =
                  (Normal (),
                   s\<lparr>statusText := (msg_fetch_error, True), fetchSkinBtn_disabled := False\<rparr>) \<and>
                new_calls s (snd (fetchSkinFromMojang e raw s)) = [] \<and>
                statusText (snd (fetchSkinFromMojang e raw s)) = (msg_fetch_error, True) \<and>
                localStorage (snd (fetchSkinFromMojang e raw s)) = localStorage s))"
  using fetch_uuid_calls [OF assms] fetch_name_calls [OF assms] by blast

theorem uuid_skips_lookup_and_encodable_name_looks_up_once_witness:
  "viewer page_ready \<noteq> None \<and> matches hex32 (trim notch_uuid) \<and>
   (\<exists>enc rest. encodeURIComponent (sessionUrl (removeDashes (trim notch_uuid))) = Inr enc \<and>
      new_calls page_ready (snd (fetchSkinFromMojang env_notch notch_uuid page_ready)) =
        ProfileByUUID (proxied enc) # rest \<and>
      \<not> list_ex is_NameLookup rest \<and> \<not> list_ex is_ProfileByUUID rest) \<and>
   \<not> matches hex32 (trim (lit ''Notch'')) \<and> \<not> matches dashedUUID (trim (lit ''Notch'')) \<and>
   trim (lit ''Notch'') \<noteq> [] \<and>
   (\<exists>rest. new_calls page_ready (snd (fetchSkinFromMojang env_notch (lit ''Notch'') page_ready)) =
      NameLookup notch_lookup_url # rest \<and> \<not> list_ex is_NameLookup rest) \<and>
   \<not> matches hex32 (trim [0xD801]) \<and> \<not> matches dashedUUID (trim [0xD801]) \<and>
   trim [0xD801] \<noteq> [] \<and> encodeURIComponent (mojangUrl (trim [0xD801])) = Inl URIError \<and>
   fetchSkinFromMojang env_notch [0xD801] page_ready =
     (Normal (), page_ready\<lparr>statusText := (msg_fetch_error, True), fetchSkinBtn_disabled := False\<rparr>) \<and>
   new_calls page_ready (snd (fetchSkinFromMojang env_notch [0xD801] page_ready)) = [] \<and>
   statusText (snd (fetchSkinFromMojang env_notch [0xD801] page_ready)) = (msg_fetch_error, True) \<and>
   localStorage (snd (fetchSkinFromMojang env_notch [0xD801] page_ready)) = localStorage page_ready"
proof -
  have rejected:
    "trim [0xD801] = [0xD801]" "encodeURIComponent (mojangUrl [0xD801]) = Inl URIError"
    by (simp_all add: trim_def isWhiteSpace_def encode_defs)
  have no_uuid: "\<not> matches hex32 [0xD801]" "\<not> matches dashedUUID [0xD801]"
    using matches_length [of "[0xD801]"] by auto
  from uuid_skips_lookup_and_encodable_name_looks_up_once
          [OF page_ready_started, where raw = notch_uuid and e = env_notch]
       uuid_skips_lookup_and_encodable_name_looks_up_once
          [OF page_ready_started, where raw = "lit ''Notch''" and e = env_notch]
       uuid_skips_lookup_and_encodable_name_looks_up_once
          [OF page_ready_started, where raw = "[0xD801]" and e = env_notch]
       page_ready_started notch_uuid_is_uuid names encodes(1) rejected no_uuid
  show ?thesis by (simp add: trims notch_lookup_url_def new_calls_def)
qed

subsection \<open>C2: a descriptor without a skin URL\<close>

lemma no_textures_run:
  "ProfileByUUID notch_session_url \<in>
     set (new_calls page_ready (snd (fetchSkinFromMojang env_no_textures notch_uuid page_ready)))"
  "statusText (snd (fetchSkinFromMojang env_no_textures notch_uuid page_ready)) = (msg_fetch_error, True)"
  by (simp_all add: run_defs upstream_facts env_no_textures_def page_ready_def url_folds)

lemma no_textures_answers:
  "fetch env_no_textures notch_session_url = Inr (session_response empty_encoded)"
  "atob env_no_textures (JString empty_encoded) = Inr empty_decoded"
  "JSON_parse env_no_textures empty_decoded = Inr empty_parsed"
  "skinUrlOf empty_parsed = Inl TypeError"
  by (simp_all add: env_no_textures_def upstream_fetch upstream_decoders skin_urls)

text \<open>
  Claim C2 says that whenever the textures property decodes to JSON that lacks a skin
  URL, the status is the "no skin found" message. It is not when the decoded JSON has
  no \<^verbatim>\<open>textures\<close> member: for the decoded object \<^verbatim>\<open>{}\<close> the read
  \<^verbatim>\<open>texturesJson.textures.SKIN\<close> of line 78 throws, and the \<^verbatim>\<open>catch\<close> block sets the
  generic error message instead.
\<close>

theorem descriptor_without_textures_gets_generic_error:
  "ProfileByUUID notch_session_url \<in>
     set (new_calls page_ready (snd (fetchSkinFromMojang env_no_textures notch_uuid page_ready))) \<and>
   fetch env_no_textures notch_session_url = Inr (session_response empty_encoded) \<and>
   getProp (notch_session empty_encoded) (lit ''properties'') = Inr (JArray [textures_property empty_encoded]) \<and>
   callFind (JArray [textures_property empty_encoded]) = Inr (textures_property empty_encoded) \<and>
   getProp (textures_property empty_encoded) (lit ''value'') = Inr (JString empty_encoded) \<and>
   atob env_no_textures (JString empty_encoded) = Inr empty_decoded \<and>
   JSON_parse env_no_textures empty_decoded = Inr empty_parsed \<and>
   skinUrlOf empty_parsed = Inl TypeError \<and>
   statusText (snd (fetchSkinFromMojang env_no_textures notch_uuid page_ready)) = (msg_fetch_error, True) \<and>
   msg_fetch_error \<noteq> msg_no_skin"
  using no_textures_run no_textures_answers session_path(1,2,4) [of empty_encoded] messages_distinct(8)
  by blast

text \<open>
  Claim C2 as amended. Take a profile request of the run whose response is successful
  and whose textures property decodes to a JSON value without a truthy skin URL. When
  the reads of line 78 succeed (the value has a \<^verbatim>\<open>textures\<close> member that is neither
  \<^verbatim>\<open>undefined\<close> nor \<^verbatim>\<open>null\<close>, and \<^verbatim>\<open>SKIN\<close> or its \<^verbatim>\<open>url\<close> is missing or falsy) the
  status is "No skin found for this player."; when they throw, it is the generic error
  of the \<^verbatim>\<open>catch\<close> block. In both cases \<^verbatim>\<open>viewer.loadSkin\<close> is not called, no exception
  leaves the function and storage is unchanged.
\<close>

theorem missing_skin_url_is_terminal:
  assumes call: "ProfileByUUID url \<in> set (new_calls s (snd (fetchSkinFromMojang e raw s)))"
      and resp: "fetch e url = Inr r" "ok r" "json r = Inr sessionData"
      and found: "getProp sessionData (lit ''properties'') = Inr props"
                 "callFind props = Inr texturesProperty" "truthy texturesProperty"
      and decoding: "getProp texturesProperty (lit ''value'') = Inr encoded"
                    "atob e encoded = Inr decoded" "JSON_parse e decoded = Inr texturesJson"
      and lacks: "case skinUrlOf texturesJson of Inr skinUrl \<Rightarrow> \<not> truthy skinUrl | Inl x \<Rightarrow> True"
  shows "statusText (snd (fetchSkinFromMojang e raw s)) =
           (case skinUrlOf texturesJson of
              Inr skinUrl \<Rightarrow> (msg_no_skin, True) | Inl x \<Rightarrow> (msg_fetch_error, True)) \<and>
         \<not> list_ex is_LoadSkin (new_calls s (snd (fetchSkinFromMojang e raw s))) \<and>
         (\<forall>x. fst (fetchSkinFromMojang e raw s) \<noteq> Throw x) \<and>
         localStorage (snd (fetchSkinFromMojang e raw s)) = localStorage s"
proof -
  let ?s0 = "s\<lparr>fetchSkinBtn_disabled := True, statusText := (msg_fetching, False)\<rparr>"
  from fetch_profile_call [OF call] obtain uuid playerName s1 c2 s2 u enc where
      nl: "name_lookup e (trim raw) ?s0 = (Normal (uuid, playerName), s1)"
    and lp: "load_profile e uuid s1 = (c2, s2)"
    and fin: "fetchSkinFromMojang e raw s =
         (case c2 of
            Throw x \<Rightarrow> (Normal (), s2\<lparr>statusText := (msg_fetch_error, True), fetchSkinBtn_disabled := False\<rparr>)
          | _ \<Rightarrow> (c2, s2\<lparr>fetchSkinBtn_disabled := False\<rparr>))"
    and u: "callReplace uuid = Inr u" and enc: "encodeURIComponent (sessionUrl u) = Inr enc"
    and url: "url = proxied enc"
    by blast
  from resp url have resp': "fetch e (proxied enc) = Inr r" by simp
  note path = load_profile_decoded [OF u enc resp' resp(2,3) found decoding]
  from name_lookup_calls [OF nl] have c1: "\<not> list_ex is_LoadSkin (drop (length (calls s)) (calls s1))"
    by auto
  from name_lookup_calls [OF nl] have len: "length (calls s) \<le> length (calls s1)" by auto
  from name_lookup_frame(2) [OF nl] have st: "localStorage s1 = localStorage s" by simp
  show ?thesis
  proof (cases "skinUrlOf texturesJson")
    case (Inl x)
    from path(1) [OF Inl] lp have "c2 = Throw x"
      and "s2 = s1\<lparr>calls := calls s1 @ [ProfileByUUID (proxied enc)]\<rparr>" by simp_all
    with fin Inl c1 len st show ?thesis by (simp add: new_calls_def)
  next
    case (Inr skinUrl)
    with lacks have "\<not> truthy skinUrl" by simp
    from path(2) [OF Inr this] lp have "c2 = Return"
      and "s2 = s1\<lparr>calls := calls s1 @ [ProfileByUUID (proxied enc)], statusText := (msg_no_skin, True)\<rparr>"
      by simp_all
    with fin Inr c1 len st show ?thesis by (simp add: new_calls_def)
  qed
qed

lemma no_skin_run:
  "ProfileByUUID notch_session_url \<in>
     set (new_calls page_ready (snd (fetchSkinFromMojang env_no_skin notch_uuid page_ready)))"
  by (simp add: run_defs upstream_facts env_no_skin_def page_ready_def url_folds)

lemma no_skin_answers:
  "fetch env_no_skin notch_session_url = Inr (session_response no_skin_encoded)"
  "atob env_no_skin (JString no_skin_encoded) = Inr no_skin_decoded"
  "JSON_parse env_no_skin no_skin_decoded = Inr no_skin_parsed"
  "skinUrlOf no_skin_parsed = Inr JUndefined"
  by (simp_all add: env_no_skin_def upstream_fetch upstream_decoders skin_urls)

theorem missing_skin_url_is_terminal_witness:
  "ProfileByUUID notch_session_url \<in>
     set (new_calls page_ready (snd (fetchSkinFromMojang env_no_skin notch_uuid page_ready))) \<and>
   fetch env_no_skin notch_session_url = Inr (session_response no_skin_encoded) \<and>
   ok (session_response no_skin_encoded) \<and>
   json (session_response no_skin_encoded) = Inr (notch_session no_skin_encoded) \<and>
   getProp (notch_session no_skin_encoded) (lit ''properties'') =
     Inr (JArray [textures_property no_skin_encoded]) \<and>
   callFind (JArray [textures_property no_skin_encoded]) = Inr (textures_property no_skin_encoded) \<and>
   truthy (textures_property no_skin_encoded) \<and>
   getProp (textures_property no_skin_encoded) (lit ''value'') = Inr (JString no_skin_encoded) \<and>
   atob env_no_skin (JString no_skin_encoded) = Inr no_skin_decoded \<and>
   JSON_parse env_no_skin no_skin_decoded = Inr no_skin_parsed \<and>
   skinUrlOf no_skin_parsed = Inr JUndefined \<and> \<not> truthy JUndefined \<and>
   statusText (snd (fetchSkinFromMojang env_no_skin notch_uuid page_ready)) = (msg_no_skin, True) \<and>
   \<not> list_ex is_LoadSkin (new_calls page_ready (snd (fetchSkinFromMojang env_no_skin notch_uuid page_ready))) \<and>
   (\<forall>x. fst (fetchSkinFromMojang env_no_skin notch_uuid page_ready) \<noteq> Throw x) \<and>
   localStorage (snd (fetchSkinFromMojang env_no_skin notch_uuid page_ready)) = localStorage page_ready"
proof -
  have lacks: "case skinUrlOf no_skin_parsed of Inr skinUrl \<Rightarrow> \<not> truthy skinUrl | Inl x \<Rightarrow> True"
    by (simp add: no_skin_answers(4))
  from missing_skin_url_is_terminal
         [OF no_skin_run no_skin_answers(1) session_response_ok
             session_path no_skin_answers(2,3) lacks]
  show ?thesis
    using no_skin_run no_skin_answers session_response_ok [of no_skin_encoded]
          session_path [of no_skin_encoded]
    by simp
qed

subsection \<open>C3: a rejected load writes nothing\<close>

text \<open>
  Claim C3. Whenever a call of \<open>fetchSkinFromMojang\<close> or of \<open>readSkinFile\<close> hands a
  source to \<^verbatim>\<open>viewer.loadSkin\<close> and the renderer rejects it, local storage after the call
  is exactly the storage before it, so \<^verbatim>\<open>currentSkin\<close> and \<^verbatim>\<open>currentPlayerName\<close> are
  untouched: the writes come after the awaited load.
\<close>

theorem rejected_load_leaves_storage:
  assumes "loadSkin e v = Inl x"
  shows "(LoadSkin v \<in> set (new_calls s (snd (fetchSkinFromMojang e raw s))) \<longrightarrow>
            localStorage (snd (fetchSkinFromMojang e raw s)) = localStorage s \<and>
            statusText (snd (fetchSkinFromMojang e raw s)) = (msg_fetch_error, True)) \<and>
         (LoadSkin v \<in> set (new_calls s (snd (readSkinFile e upload s))) \<longrightarrow>
            localStorage (snd (readSkinFile e upload s)) = localStorage s \<and>
            statusText (snd (readSkinFile e upload s)) = (msg_read_failed, True))"
  using fetch_rejected [OF assms] readSkinFile_rejected [OF assms] by blast

lemma rejecting_upload:
  "LoadSkin (JString png_data_url) \<in>
     set (new_calls page_ready (snd (readSkinFile env_rejecting (Some skin_png) page_ready)))"
  using rejecting_runs(3)
  by (simp add: readSkinFile_flat [OF page_ready_started] on_reader_load_flat new_calls_def
        skin_png_def env_rejecting_def env_notch_def upstream_def)

theorem rejected_load_leaves_storage_witness:
  "loadSkin env_rejecting (JString notch_skin_url) = Inl LoadError \<and>
   LoadSkin (JString notch_skin_url) \<in>
     set (new_calls page_ready (snd (fetchSkinFromMojang env_rejecting (lit ''Notch'') page_ready))) \<and>
   localStorage (snd (fetchSkinFromMojang env_rejecting (lit ''Notch'') page_ready)) =
     localStorage page_ready \<and>
   loadSkin env_rejecting (JString png_data_url) = Inl LoadError \<and>
   LoadSkin (JString png_data_url) \<in>
     set (new_calls page_ready (snd (readSkinFile env_rejecting (Some skin_png) page_ready))) \<and>
   localStorage (snd (readSkinFile env_rejecting (Some skin_png) page_ready)) = localStorage page_ready"
  using rejected_load_leaves_storage
          [OF rejecting_runs(1), where s = page_ready and raw = "lit ''Notch''"]
        rejected_load_leaves_storage
          [OF rejecting_runs(3), where s = page_ready and upload = "Some skin_png"]
        rejecting_runs rejecting_upload
  by blast

subsection \<open>C4: a 404 from the name lookup\<close>





subsection \<open>C5: a saved skin that no longer loads\<close>

text \<open>
  Claim C5. When \<open>initializeViewer\<close> finds a saved skin in local storage, tries to load
  it and the load fails, it removes \<^verbatim>\<open>currentSkin\<close> and \<^verbatim>\<open>currentPlayerName\<close> (and
  changes no other key) and sets the status to the "Ready!" message.
\<close>

theorem failed_restore_clears_storage:
  assumes "localStorage s currentSkin = Some saved"
      and "LoadSkin (JString saved) \<in> set (new_calls s (snd (initializeViewer e s)))"
      and "loadSkin e (JString saved) = Inl x"
  shows "localStorage (snd (initializeViewer e s)) =
           (localStorage s)(currentSkin := None, currentPlayerName := None) \<and>
         statusText (snd (initializeViewer e s)) = (msg_ready, False)"
  using assms
  by (auto simp add: initializeViewer_flat Let_def new_calls_def split: if_splits)

lemma saved_skin_run:
  "localStorage page_with_saved_skin currentSkin = Some notch_skin_url"
  "LoadSkin (JString notch_skin_url) \<in>
     set (new_calls page_with_saved_skin (snd (initializeViewer env_rejecting page_with_saved_skin)))"
  by (simp_all add: initializeViewer_flat truthy_item_def new_calls_def Let_def keys_distinct skin_urls
        page_with_saved_skin_def page_loading_def page_ready_def env_rejecting_def)

theorem failed_restore_clears_storage_witness:
  "localStorage page_with_saved_skin currentSkin = Some notch_skin_url \<and>
   LoadSkin (JString notch_skin_url) \<in>
     set (new_calls page_with_saved_skin (snd (initializeViewer env_rejecting page_with_saved_skin))) \<and>
   loadSkin env_rejecting (JString notch_skin_url) = Inl LoadError \<and>
   localStorage (snd (initializeViewer env_rejecting page_with_saved_skin)) =
     (localStorage page_with_saved_skin)(currentSkin := None, currentPlayerName := None) \<and>
   statusText (snd (initializeViewer env_rejecting page_with_saved_skin)) = (msg_ready, False)"
  using failed_restore_clears_storage [OF saved_skin_run rejecting_runs(1)]
        saved_skin_run rejecting_runs(1)
  by blast

subsection \<open>C6: files over 5 MiB\<close>

lemma big_txt_run:
  "5 * 1024 * 1024 < file_size big_txt"
  "statusText (snd (readSkinFile env_notch (Some big_txt) page_ready)) = (msg_select_png, True)"
  by (simp_all add: readSkinFile_flat [OF page_ready_started] big_txt_def endsWith_def lit_def)

text \<open>
  Claim C6 says that every file over 5 MiB gets the size error. The PNG check of line
  162 comes first: a text file of 5 MiB + 1 byte is rejected with the PNG message, not
  with the size message.
\<close>

theorem oversized_text_file_gets_png_error:
  "viewer page_ready \<noteq> None \<and> 5 * 1024 * 1024 < file_size big_txt \<and>
   statusText (snd (readSkinFile env_notch (Some big_txt) page_ready)) = (msg_select_png, True) \<and>
   msg_select_png \<noteq> msg_too_large"
  using page_ready_started big_txt_run messages_distinct(1) by blast

text \<open>
  Claim C6 as amended. With the viewer started, a file of more than 5 * 1024 * 1024
  bytes is never read and leaves local storage unchanged; the error it gets is the size
  message when the file passes the PNG check and the PNG message otherwise. A file of
  at most 5 MiB never gets the size message.
\<close>

theorem oversized_file_is_not_read:
  assumes "viewer s \<noteq> None"
  shows "(5 * 1024 * 1024 < file_size f \<longrightarrow>
            new_calls s (snd (readSkinFile e (Some f) s)) = [] \<and>
            localStorage (snd (readSkinFile e (Some f) s)) = localStorage s \<and>
            statusText (snd (readSkinFile e (Some f) s)) =
              (if file_type f = lit ''image/png'' \<or> endsWith (file_name f) (lit ''.png'')
               then (msg_too_large, True) else (msg_select_png, True))) \<and>
         (file_size f \<le> 5 * 1024 * 1024 \<longrightarrow>
            statusText (snd (readSkinFile e (Some f) s)) \<noteq> (msg_too_large, True))"
  using assms messages_distinct
  by (auto simp add: readSkinFile_flat on_reader_load_flat new_calls_def split: sum.splits)

lemma png_sizes:
  "5 * 1024 * 1024 < file_size big_png" "file_type big_png = lit ''image/png''"
  "file_size skin_png \<le> 5 * 1024 * 1024"
  by (simp_all add: big_png_def skin_png_def)

theorem oversized_file_is_not_read_witness:
  "viewer page_ready \<noteq> None \<and> 5 * 1024 * 1024 < file_size big_png \<and>
   new_calls page_ready (snd (readSkinFile env_notch (Some big_png) page_ready)) = [] \<and>
   localStorage (snd (readSkinFile env_notch (Some big_png) page_ready)) = localStorage page_ready \<and>
   statusText (snd (readSkinFile env_notch (Some big_png) page_ready)) = (msg_too_large, True) \<and>
   file_size skin_png \<le> 5 * 1024 * 1024 \<and>
   statusText (snd (readSkinFile env_notch (Some skin_png) page_ready)) \<noteq> (msg_too_large, True)"
  using oversized_file_is_not_read [OF page_ready_started, where f = big_png and e = env_notch]
        oversized_file_is_not_read [OF page_ready_started, where f = skin_png and e = env_notch]
        page_ready_started png_sizes
  by simp

subsection \<open>C7: the animation preference\<close>




subsection \<open>C8: resolving the same input twice\<close>

text \<open>
  Claim C8. Calling \<open>fetchSkinFromMojang\<close> a second time with the same input, right
  after the first call and against the same environment (the same answers of the
  lookup and profile services, the same decoders and renderer), completes the same way
  and leaves the page exactly as the first call left it, apart from the log, which
  gets the calls of the first run once more: the same requests, the same skin URL given
  to the renderer, the same two storage entries and the same status message.
\<close>

theorem fetch_twice_same_result:
  "fetchSkinFromMojang e raw (snd (fetchSkinFromMojang e raw s)) =
     (fst (fetchSkinFromMojang e raw s),
      (snd (fetchSkinFromMojang e raw s))
        \<lparr>calls := calls (snd (fetchSkinFromMojang e raw s)) @
                    new_calls s (snd (fetchSkinFromMojang e raw s))\<rparr>)"
proof (cases "viewer s = None")
  case True
  then show ?thesis by (simp add: fetch_uninit new_calls_def)
next
  case False
  let ?s0 = "s\<lparr>fetchSkinBtn_disabled := True, statusText := (msg_fetching, False)\<rparr>"
  from False show ?thesis
  proof (cases rule: fetch_cases [where raw = raw and e = e])
    case empty
    with False show ?thesis by (simp add: fetch_empty new_calls_def)
  next
    case (returned s1)
    let ?s' = "s1\<lparr>fetchSkinBtn_disabled := False\<rparr>"
    let ?t0 = "?s'\<lparr>fetchSkinBtn_disabled := True, statusText := (msg_fetching, False)\<rparr>"
    from name_lookup_frame(1) [OF returned(2)] False have v': "viewer ?s' \<noteq> None" by simp
    from name_lookup_again [where e = e and input = "trim raw" and s = ?s0] returned(2)
    have "name_lookup e (trim raw) ?t0 =
            (Return, ?t0\<lparr>calls := calls ?t0 @ drop (length (calls s)) (calls s1),
                           statusText := statusText s1\<rparr>)"
      by simp
    from fetch_returned [OF v' returned(1) this] returned(3)
    show ?thesis by (simp add: new_calls_def)
  next
    case (thrown x s1)
    let ?s' = "s1\<lparr>statusText := (msg_fetch_error, True), fetchSkinBtn_disabled := False\<rparr>"
    let ?t0 = "?s'\<lparr>fetchSkinBtn_disabled := True, statusText := (msg_fetching, False)\<rparr>"
    from name_lookup_frame(1) [OF thrown(2)] False have v': "viewer ?s' \<noteq> None" by simp
    from name_lookup_again [where e = e and input = "trim raw" and s = ?s0] thrown(2)
    have "name_lookup e (trim raw) ?t0 =
            (Throw x, ?t0\<lparr>calls := calls ?t0 @ drop (length (calls s)) (calls s1),
                           statusText := statusText ?t0\<rparr>)"
      by simp
    from fetch_thrown [OF v' thrown(1) this] thrown(3)
    show ?thesis by (simp add: new_calls_def)
  next
    case (profile uuid playerName s1 c2 s2)
    let ?s' = "snd (fetchSkinFromMojang e raw s)"
    let ?t0 = "?s'\<lparr>fetchSkinBtn_disabled := True, statusText := (msg_fetching, False)\<rparr>"
    from name_lookup_appends [OF profile(2)] obtain d1 where d1: "calls s1 = calls s @ d1" by auto
    from load_profile_effects(4) [OF profile(3)] obtain d2 where d2: "calls s2 = calls s1 @ d2" by blast
    from fetch_final [OF profile(4)]
    have fin: "calls ?s' = calls s2" "localStorage ?s' = localStorage s2"
      "statusText ?s' = (case c2 of Throw x \<Rightarrow> (msg_fetch_error, True) | _ \<Rightarrow> statusText s2)"
      "fst (fetchSkinFromMojang e raw s) = (case c2 of Throw x \<Rightarrow> Normal () | _ \<Rightarrow> c2)"
      by simp_all
    from profile(4) load_profile_effects(1,2,3) [OF profile(3)] name_lookup_frame [OF profile(2)] False
    have v': "viewer ?s' \<noteq> None" and btn: "fetchSkinBtn_disabled ?s' = False"
      by (simp_all split: completion.splits)
    let ?t1 = "?t0\<lparr>calls := calls ?t0 @ d1, statusText := statusText ?t0\<rparr>"
    from name_lookup_again [where e = e and input = "trim raw" and s = ?s0] profile(2) d1
    have nl2: "name_lookup e (trim raw) ?t0 = (Normal (uuid, playerName), ?t1)"
      by simp
    let ?t2 = "?t1\<lparr>calls := calls ?t1 @ d2,
                   statusText := (case c2 of Throw x \<Rightarrow> statusText ?t1 | _ \<Rightarrow> statusText s2)\<rparr>"
    from load_profile_again [where e = e and uuid = uuid and s = s1] profile(3) d2 fin(2)
    have lp2: "load_profile e uuid ?t1 = (c2, ?t2)"
      by (cases c2) simp_all
    from fetch_profile [OF v' profile(1) nl2 lp2] fin btn d1 d2
    show ?thesis
      by (cases c2) (simp_all add: new_calls_def)
  qed
qed

subsection \<open>C9: before the viewer has started\<close>

text \<open>
  Claim C9. While the viewer is not initialised, \<open>fetchSkinFromMojang\<close> and
  \<open>readSkinFile\<close> return at once and change nothing but the status line, which gets the
  "still starting up" message as an error: no request, no file read, no storage write.
\<close>

theorem not_started_does_nothing:
  assumes "viewer s = None"
  shows "fetchSkinFromMojang e raw s = (Return, s\<lparr>statusText := (msg_starting, True)\<rparr>) \<and>
         readSkinFile e upload s = (Return, s\<lparr>statusText := (msg_starting, True)\<rparr>) \<and>
         new_calls s (snd (fetchSkinFromMojang e raw s)) = [] \<and>
         new_calls s (snd (readSkinFile e upload s)) = [] \<and>
         localStorage (snd (fetchSkinFromMojang e raw s)) = localStorage s \<and>
         localStorage (snd (readSkinFile e upload s)) = localStorage s"
  using assms by (simp add: fetchSkinFromMojang_def readSkinFile_def run_simps new_calls_def)

theorem not_started_does_nothing_witness:
  "viewer page_loading = None \<and>
   fetchSkinFromMojang env_notch (lit ''Notch'') page_loading =
     (Return, page_loading\<lparr>statusText := (msg_starting, True)\<rparr>) \<and>
   readSkinFile env_notch (Some skin_png) page_loading =
     (Return, page_loading\<lparr>statusText := (msg_starting, True)\<rparr>) \<and>
   new_calls page_loading (snd (fetchSkinFromMojang env_notch (lit ''Notch'') page_loading)) = [] \<and>
   new_calls page_loading (snd (readSkinFile env_notch (Some skin_png) page_loading)) = []"
  using not_started_does_nothing
          [OF page_loading_not_started, where e = env_notch and raw = "lit ''Notch''"
             and upload = "Some skin_png"]
        page_loading_not_started
  by blast

subsection \<open>C10: the PNG check\<close>

text \<open>
  Claim C10. With the viewer started, a file is turned away with the PNG message
  exactly when its type is not \<^verbatim>\<open>image/png\<close> and its name does not end in \<^verbatim>\<open>.png\<close>;
  either property alone lets it pass, whatever the other is. A file is read exactly
  when it passes this check and is at most 5 MiB.
\<close>

theorem png_check_is_disjunction:
  assumes "viewer s \<noteq> None"
  shows "(statusText (snd (readSkinFile e (Some f) s)) \<noteq> (msg_select_png, True)) =
           (file_type f = lit ''image/png'' \<or> endsWith (file_name f) (lit ''.png'')) \<and>
         (ReadAsDataURL f \<in> set (new_calls s (snd (readSkinFile e (Some f) s)))) =
           ((file_type f = lit ''image/png'' \<or> endsWith (file_name f) (lit ''.png'')) \<and>
            file_size f \<le> 5 * 1024 * 1024)"
  using assms messages_distinct
  by (auto simp add: readSkinFile_flat on_reader_load_flat new_calls_def split: sum.splits)

lemma dropped_png_facts:
  "file_type dropped_png \<noteq> lit ''image/png''" "endsWith (file_name dropped_png) (lit ''.png'')"
  "file_size dropped_png \<le> 5 * 1024 * 1024"
  by (simp_all add: dropped_png_def endsWith_def lit_def)

theorem png_check_is_disjunction_witness:
  "viewer page_ready \<noteq> None \<and> file_type dropped_png \<noteq> lit ''image/png'' \<and>
   endsWith (file_name dropped_png) (lit ''.png'') \<and>
   statusText (snd (readSkinFile env_notch (Some dropped_png) page_ready)) \<noteq> (msg_select_png, True) \<and>
   ReadAsDataURL dropped_png \<in>
     set (new_calls page_ready (snd (readSkinFile env_notch (Some dropped_png) page_ready)))"
  using png_check_is_disjunction [OF page_ready_started, where f = dropped_png and e = env_notch]
        page_ready_started dropped_png_facts
  by simp

end
